theory Spec2Isabelle
  imports Main "HOL-Library.Char_ord" "HOL-Library.List_Lexorder"
    "HOL-Library.Product_Lexorder" "HOL-Library.AList"
begin

section \<open>The document: JSON values as Python holds them\<close>

text \<open>
  The ledger of \<^verbatim>\<open>inventory.py\<close> is one JSON document, loaded with \<^verbatim>\<open>json.load\<close> and
  mutated in place. Its functions are dynamically typed, so the model keeps the values
  dynamic as well: a value is \<^verbatim>\<open>None\<close>, a \<^verbatim>\<open>bool\<close>, an \<^verbatim>\<open>int\<close>, a \<^verbatim>\<open>str\<close>, a \<^verbatim>\<open>list\<close> or a
  \<^verbatim>\<open>dict\<close>. A \<^verbatim>\<open>dict\<close> is an association list in insertion order; assigning to a key that
  exists keeps its position and a new key goes to the end, which is what
  \<^const>\<open>AList.update\<close> does. Strings are sequences of 8-bit characters (the UTF-8 bytes
  of the Python string), compared bytewise, which agrees with Python's comparison by
  code point. JSON numbers with a fractional part (Python floats) are not part of the
  model.
\<close>

datatype json =
    JNull
  | JBool bool
  | JInt int
  | JStr string
  | JList "json list"
  | JDict "(string \<times> json) list"

type_synonym pydict = "(string \<times> json) list"

text \<open>
  The exceptions the code can raise. \<^verbatim>\<open>record_transaction\<close> raises \<^verbatim>\<open>ValueError\<close> with a
  formatted message in two places; the model keeps the values the message is formatted
  from: the item and the artist already registered, and the item, the location, the
  available and the requested quantity. \<open>AttributeError\<close>, \<open>TypeError\<close> and \<open>KeyError\<close> are
  what Python raises when a method is called on, or an operator applied to, a value of the
  wrong type, and when a subscript names a missing key. \<open>Unmodelled\<close> is not a Python
  exception: it marks the places where the model stops following the code (a value that
  is hashable and not a string used as a key of a new dict; \<^verbatim>\<open>int(s)\<close> of a string).
\<close>

datatype error =
    AttributeError
  | TypeError
  | KeyError string
  | Unmodelled
  | ArtistMismatch string json
  | InsufficientStock string string json int

text \<open>
  A function that mutates the document returns the exception it raised, if any, together
  with the document as the call left it: Python does not undo the mutations made before
  a \<^verbatim>\<open>raise\<close>.
\<close>

type_synonym outcome = "error option \<times> pydict"

definition and_then :: "outcome \<Rightarrow> (pydict \<Rightarrow> outcome) \<Rightarrow> outcome" where
  "and_then r f = (case r of (None, d) \<Rightarrow> f d | (Some e, d) \<Rightarrow> (Some e, d))"

text \<open>Truth value testing (\<^verbatim>\<open>if x\<close>, \<^verbatim>\<open>x and y\<close>, \<^verbatim>\<open>x or y\<close>).\<close>

fun truthy :: "json \<Rightarrow> bool" where
  "truthy JNull = False"
| "truthy (JBool b) = b"
| "truthy (JInt i) = (i \<noteq> 0)"
| "truthy (JStr s) = (s \<noteq> [])"
| "truthy (JList xs) = (xs \<noteq> [])"
| "truthy (JDict kvs) = (kvs \<noteq> [])"

text \<open>\<^verbatim>\<open>isinstance(x, int)\<close> holds of a \<^verbatim>\<open>bool\<close> too: \<^verbatim>\<open>bool\<close> is a subclass of \<^verbatim>\<open>int\<close>.\<close>

fun isinstance_int :: "json \<Rightarrow> bool" where
  "isinstance_int (JInt i) = True"
| "isinstance_int (JBool b) = True"
| "isinstance_int v = False"

fun isinstance_dict :: "json \<Rightarrow> bool" where
  "isinstance_dict (JDict kvs) = True"
| "isinstance_dict v = False"

text \<open>\<^verbatim>\<open>d.setdefault(k, v)\<close>, as far as it changes \<open>d\<close>.\<close>

definition setdefault :: "string \<Rightarrow> json \<Rightarrow> pydict \<Rightarrow> pydict" where
  "setdefault k v d = (case map_of d k of None \<Rightarrow> d @ [(k, v)] | Some x \<Rightarrow> d)"

text \<open>
  A \<^verbatim>\<open>for\<close> loop over the values of a dict, or over a list, whose body mutates the value
  and may raise. The loop stops at the first exception; the values before it stay
  mutated and the ones after it are untouched.
\<close>

fun for_values :: "(json \<Rightarrow> error option \<times> json) \<Rightarrow> pydict \<Rightarrow> error option \<times> pydict" where
  "for_values f [] = (None, [])"
| "for_values f ((k, v) # rest) =
     (case f v of
        (Some e, v') \<Rightarrow> (Some e, (k, v') # rest)
      | (None, v') \<Rightarrow> (case for_values f rest of (e, rest') \<Rightarrow> (e, (k, v') # rest')))"

fun for_each :: "(json \<Rightarrow> error option \<times> json) \<Rightarrow> json list \<Rightarrow> error option \<times> json list" where
  "for_each f [] = (None, [])"
| "for_each f (v # rest) =
     (case f v of
        (Some e, v') \<Rightarrow> (Some e, v' # rest)
      | (None, v') \<Rightarrow> (case for_each f rest of (e, rest') \<Rightarrow> (e, v' # rest')))"

section \<open>The schema upgrader\<close>

text \<open>\<^verbatim>\<open>all(isinstance(qty, int) for qty in value.values())\<close>\<close>

definition all_int_values :: "pydict \<Rightarrow> bool" where
  "all_int_values m = list_all (\<lambda>kv. isinstance_int (snd kv)) m"

text \<open>The body of the loop over \<^verbatim>\<open>stock.items()\<close>: what \<^verbatim>\<open>stock[item]\<close> is afterwards.\<close>

definition upgrade_stock_value :: "json \<Rightarrow> json" where
  "upgrade_stock_value v =
     (case v of
        JDict m \<Rightarrow> (if m \<noteq> [] \<and> all_int_values m then JDict [('''', JDict m)] else JDict m)
      | _ \<Rightarrow> JDict [('''', JDict [])])"

text \<open>The body of the loop over \<^verbatim>\<open>metadata.values()\<close>.\<close>

definition ensure_last_audit :: "json \<Rightarrow> json" where
  "ensure_last_audit info =
     (case info of
        JDict m \<Rightarrow>
          (case map_of m ''last_audit'' of
             Some (JDict a) \<Rightarrow> JDict m
           | _ \<Rightarrow> JDict (AList.update ''last_audit'' (JDict []) m))
      | _ \<Rightarrow> info)"

text \<open>
  The body of the loop over \<^verbatim>\<open>opening.items()\<close>. Unlike the loop over the live stock it
  does not test \<^verbatim>\<open>isinstance(value, dict)\<close>: a value that is truthy and not a dict has no
  \<^verbatim>\<open>values\<close> method.
\<close>

definition upgrade_opening_value :: "json \<Rightarrow> error option \<times> json" where
  "upgrade_opening_value v =
     (if truthy v then
        (case v of
           JDict m \<Rightarrow> (None, if all_int_values m then JDict [('''', JDict m)] else JDict m)
         | _ \<Rightarrow> (Some AttributeError, v))
      else (None, v))"

text \<open>The body of the loop over \<^verbatim>\<open>data.get("periods", {}).values()\<close>.\<close>

definition upgrade_period_info :: "json \<Rightarrow> error option \<times> json" where
  "upgrade_period_info period_info =
     (case period_info of
        JDict p \<Rightarrow>
          (case map_of p ''opening_stock'' of
             Some (JDict opening) \<Rightarrow>
               (case for_values upgrade_opening_value opening of
                  (e, opening') \<Rightarrow> (e, JDict (AList.update ''opening_stock'' (JDict opening') p)))
           | _ \<Rightarrow> (None, JDict (AList.update ''opening_stock'' (JDict []) p)))
      | _ \<Rightarrow> (Some AttributeError, period_info))"

text \<open>The body of the loop over \<^verbatim>\<open>history\<close>: four \<^verbatim>\<open>setdefault\<close> calls.\<close>

definition upgrade_history_entry :: "json \<Rightarrow> error option \<times> json" where
  "upgrade_history_entry entry =
     (case entry of
        JDict e \<Rightarrow>
          (None, JDict (setdefault ''category'' (JStr ''album'')
                   (setdefault ''event_open'' (JBool False)
                     (setdefault ''event_id'' (JStr '''')
                       (setdefault ''event'' (JBool False) e)))))
      | _ \<Rightarrow> (Some AttributeError, entry))"

text \<open>The body of the last loop, over \<^verbatim>\<open>data.get("item_metadata", {}).items()\<close>.\<close>

definition ensure_category :: "json \<Rightarrow> json" where
  "ensure_category info =
     (case info of
        JDict m \<Rightarrow>
          (if (case map_of m ''category'' of Some c \<Rightarrow> truthy c | None \<Rightarrow> False) then JDict m
           else JDict (AList.update ''category'' (JStr ''album'') m))
      | _ \<Rightarrow> info)"

text \<open>
  The four parts of \<^verbatim>\<open>_ensure_new_schema\<close> after the stock loop, in the order of the
  source. Each reads its field again from the document, as the source does.
\<close>

definition upgrade_metadata :: "pydict \<Rightarrow> outcome" where
  "upgrade_metadata data =
     (case map_of data ''item_metadata'' of
        None \<Rightarrow> (None, data @ [(''item_metadata'', JDict [])])
      | Some (JDict metadata) \<Rightarrow>
          (None, AList.update ''item_metadata''
                   (JDict (map (\<lambda>kv. (fst kv, ensure_last_audit (snd kv))) metadata)) data)
      | Some v \<Rightarrow> (Some AttributeError, data))"

definition upgrade_periods :: "pydict \<Rightarrow> outcome" where
  "upgrade_periods data =
     (case map_of data ''periods'' of
        None \<Rightarrow> (None, data)
      | Some (JDict periods) \<Rightarrow>
          (case for_values upgrade_period_info periods of
             (e, periods') \<Rightarrow> (e, AList.update ''periods'' (JDict periods') data))
      | Some v \<Rightarrow> (Some AttributeError, data))"

definition upgrade_history :: "pydict \<Rightarrow> outcome" where
  "upgrade_history data =
     (case map_of data ''history'' of
        None \<Rightarrow> (None, data)
      | Some (JList history) \<Rightarrow>
          (case for_each upgrade_history_entry history of
             (e, history') \<Rightarrow> (e, AList.update ''history'' (JList history') data))
      | Some (JDict m) \<Rightarrow> (if m = [] then None else Some AttributeError, data)
      | Some (JStr s) \<Rightarrow> (if s = [] then None else Some AttributeError, data)
      | Some v \<Rightarrow> (Some TypeError, data))"

definition upgrade_categories :: "pydict \<Rightarrow> outcome" where
  "upgrade_categories data =
     (case map_of data ''item_metadata'' of
        None \<Rightarrow> (None, data)
      | Some (JDict metadata) \<Rightarrow>
          (None, AList.update ''item_metadata''
                   (JDict (map (\<lambda>kv. (fst kv, ensure_category (snd kv))) metadata)) data)
      | Some v \<Rightarrow> (Some AttributeError, data))"

text \<open>
  \<^verbatim>\<open>_ensure_new_schema\<close>. When \<^verbatim>\<open>stock\<close> is missing or not a dict the function resets it
  and returns at once: nothing after the first \<^verbatim>\<open>return\<close> runs on that call.
\<close>

definition ensure_new_schema :: "pydict \<Rightarrow> outcome" where
  "ensure_new_schema data =
     (case map_of data ''stock'' of
        Some (JDict stock) \<Rightarrow>
          and_then (and_then (and_then
            (upgrade_metadata
               (AList.update ''stock''
                  (JDict (map (\<lambda>kv. (fst kv, upgrade_stock_value (snd kv))) stock)) data))
            upgrade_periods) upgrade_history) upgrade_categories
      | _ \<Rightarrow> (None, AList.update ''stock'' (JDict []) data))"

section \<open>Transactions\<close>

text \<open>
  \<^verbatim>\<open>Transaction.timestamp\<close> is a naive \<^verbatim>\<open>datetime\<close>. The code reads four renderings off
  it: \<^verbatim>\<open>strftime("%Y-%m")\<close>, \<^verbatim>\<open>date().isoformat()\<close>, \<^verbatim>\<open>strftime("%Y")\<close> and
  \<^verbatim>\<open>isoformat()\<close>. The years are rendered with four digits (for a year below 1000
  \<^verbatim>\<open>strftime\<close> depends on the platform; \<^verbatim>\<open>isoformat\<close> always pads).
\<close>

record datetime =
  dt_year :: nat
  dt_month :: nat
  dt_day :: nat
  dt_hour :: nat
  dt_minute :: nat
  dt_second :: nat
  dt_microsecond :: nat

definition digit :: "nat \<Rightarrow> char" where
  "digit n = ''0123456789'' ! (n mod 10)"

definition pad2 :: "nat \<Rightarrow> string" where
  "pad2 n = [digit (n div 10), digit n]"

definition pad4 :: "nat \<Rightarrow> string" where
  "pad4 n = [digit (n div 1000), digit (n div 100), digit (n div 10), digit n]"

definition pad6 :: "nat \<Rightarrow> string" where
  "pad6 n = [digit (n div 100000), digit (n div 10000), digit (n div 1000),
             digit (n div 100), digit (n div 10), digit n]"

definition dt_period :: "datetime \<Rightarrow> string" where
  "dt_period ts = pad4 (dt_year ts) @ ''-'' @ pad2 (dt_month ts)"

definition dt_date :: "datetime \<Rightarrow> string" where
  "dt_date ts = pad4 (dt_year ts) @ ''-'' @ pad2 (dt_month ts) @ ''-'' @ pad2 (dt_day ts)"

definition dt_isoformat :: "datetime \<Rightarrow> string" where
  "dt_isoformat ts =
     dt_date ts @ ''T'' @ pad2 (dt_hour ts) @ '':'' @ pad2 (dt_minute ts) @ '':'' @ pad2 (dt_second ts)
     @ (if dt_microsecond ts = 0 then [] else ''.'' @ pad6 (dt_microsecond ts))"

text \<open>The dataclass \<^verbatim>\<open>Transaction\<close>, field by field, and its three properties.\<close>

record transaction =
  tx_type :: string
  tx_artist :: string
  tx_item :: string
  tx_option :: string
  tx_location :: string
  tx_quantity :: int
  tx_timestamp :: datetime
  tx_category :: string
  tx_actor :: string
  tx_description :: string
  tx_event :: bool
  tx_event_id :: string
  tx_event_open :: bool

definition period :: "transaction \<Rightarrow> string" where
  "period t = dt_period (tx_timestamp t)"

definition day :: "transaction \<Rightarrow> string" where
  "day t = dt_date (tx_timestamp t)"

definition year :: "transaction \<Rightarrow> string" where
  "year t = pad4 (dt_year (tx_timestamp t))"

definition to_dict :: "transaction \<Rightarrow> pydict" where
  "to_dict t =
     [(''type'', JStr (tx_type t)),
      (''artist'', JStr (tx_artist t)),
      (''item'', JStr (tx_item t)),
      (''category'', JStr (tx_category t)),
      (''option'', JStr (tx_option t)),
      (''location'', JStr (tx_location t)),
      (''quantity'', JInt (tx_quantity t)),
      (''timestamp'', JStr (dt_isoformat (tx_timestamp t))),
      (''actor'', JStr (tx_actor t)),
      (''period'', JStr (period t)),
      (''day'', JStr (day t)),
      (''year'', JStr (year t)),
      (''description'', JStr (tx_description t)),
      (''event'', JBool (tx_event t)),
      (''event_id'', JStr (tx_event_id t)),
      (''event_open'', JBool (tx_event_open t))]"

text \<open>The document \<^verbatim>\<open>load_data\<close> starts from when there is no data file.\<close>

definition empty_document :: pydict where
  "empty_document =
     [(''current_period'', JNull),
      (''periods'', JDict []),
      (''stock'', JDict []),
      (''history'', JList []),
      (''item_metadata'', JDict []),
      (''last_updated'', JNull),
      (''activity_log'', JList [])]"

section \<open>Strings\<close>

text \<open>
  A string is the list of the bytes of its UTF-8 encoding. \<^verbatim>\<open>str.strip\<close> and \<^verbatim>\<open>str.lower\<close>
  work on code points, so the bytes are decoded first and the result encoded again. A
  byte that starts no well-formed sequence is carried through as a value above the last
  code point, so that every list of bytes is decoded and encoded back to itself.
\<close>

definition continuation :: "int \<Rightarrow> string \<Rightarrow> (int \<times> string) option" where
  "continuation acc bs =
     (case bs of
        [] \<Rightarrow> None
      | b # rest \<Rightarrow>
          if 0x80 \<le> (of_char b :: int) \<and> (of_char b :: int) < 0xC0
          then Some (acc * 64 + (of_char b - 0x80), rest) else None)"

definition utf8_first :: "char \<Rightarrow> string \<Rightarrow> (int \<times> nat) option" where
  "utf8_first b rest =
     (let v = (of_char b :: int) in
      if v < 0x80 then Some (v, 0)
      else if 0xC2 \<le> v \<and> v < 0xE0 then
        (case continuation (v - 0xC0) rest of
           Some (c, r) \<Rightarrow> Some (c, 1)
         | None \<Rightarrow> None)
      else if 0xE0 \<le> v \<and> v < 0xF0 then
        (case continuation (v - 0xE0) rest of
           Some (c1, r1) \<Rightarrow>
             (case continuation c1 r1 of
                Some (c, r) \<Rightarrow> if 0x800 \<le> c then Some (c, 2) else None
              | None \<Rightarrow> None)
         | None \<Rightarrow> None)
      else if 0xF0 \<le> v \<and> v < 0xF5 then
        (case continuation (v - 0xF0) rest of
           Some (c1, r1) \<Rightarrow>
             (case continuation c1 r1 of
                Some (c2, r2) \<Rightarrow>
                  (case continuation c2 r2 of
                     Some (c, r) \<Rightarrow> if 0x10000 \<le> c \<and> c < 0x110000 then Some (c, 3) else None
                   | None \<Rightarrow> None)
              | None \<Rightarrow> None)
         | None \<Rightarrow> None)
      else None)"

function utf8_decode :: "string \<Rightarrow> int list" where
  "utf8_decode [] = []"
| "utf8_decode (b # rest) =
     (case utf8_first b rest of
        Some (c, n) \<Rightarrow> c # utf8_decode (drop n rest)
      | None \<Rightarrow> (0x110000 + of_char b) # utf8_decode rest)"
  by pat_completeness auto
termination
  by (relation "measure length") auto

definition utf8_encode_point :: "int \<Rightarrow> string" where
  "utf8_encode_point c =
     (if c < 0x80 then [char_of c]
      else if c < 0x800 then [char_of (0xC0 + c div 64), char_of (0x80 + c mod 64)]
      else if c < 0x10000 then
        [char_of (0xE0 + c div 4096), char_of (0x80 + c div 64 mod 64), char_of (0x80 + c mod 64)]
      else if c < 0x110000 then
        [char_of (0xF0 + c div 262144), char_of (0x80 + c div 4096 mod 64),
         char_of (0x80 + c div 64 mod 64), char_of (0x80 + c mod 64)]
      else [char_of (c - 0x110000)])"

definition utf8_encode :: "int list \<Rightarrow> string" where
  "utf8_encode cs = concat (map utf8_encode_point cs)"

text \<open>
  The properties of the code points that \<^verbatim>\<open>str.strip\<close> and \<^verbatim>\<open>str.lower\<close> read, as CPython 3.11
  has them (Unicode 14.0.0), each a sorted list of ranges: the whitespace
  (\<^verbatim>\<open>_PyUnicode_IsWhitespace\<close>), the cased code points (\<^verbatim>\<open>_PyUnicode_IsCased\<close>), the
  case-ignorable ones (\<^verbatim>\<open>_PyUnicode_IsCaseIgnorable\<close>), and the lower-case mapping: a run
  \<open>(lo, hi, step, target)\<close> maps every \<open>step\<close>-th code point from \<open>lo\<close> to \<open>hi\<close> to
  the code point at the same distance from \<open>target\<close>.
\<close>

fun in_ranges :: "(int \<times> int) list \<Rightarrow> int \<Rightarrow> bool" where
  "in_ranges [] c = False"
| "in_ranges ((lo, hi) # rs) c =
     (if c < lo then False else if c \<le> hi then True else in_ranges rs c)"

definition whitespace_ranges :: "(int \<times> int) list" where
  "whitespace_ranges =
     [(0x9, 0xD), (0x1C, 0x20), (0x85, 0x85), (0xA0, 0xA0), (0x1680, 0x1680), (0x2000, 0x200A),
      (0x2028, 0x2029), (0x202F, 0x202F), (0x205F, 0x205F), (0x3000, 0x3000)]"

definition cased_ranges :: "(int \<times> int) list" where
  "cased_ranges =
     [(0x41, 0x5A), (0x61, 0x7A), (0xAA, 0xAA), (0xB5, 0xB5), (0xBA, 0xBA), (0xC0, 0xD6),
      (0xD8, 0xF6), (0xF8, 0x1BA), (0x1BC, 0x1BF), (0x1C4, 0x293), (0x295, 0x2B8), (0x2C0, 0x2C1),
      (0x2E0, 0x2E4), (0x345, 0x345), (0x370, 0x373), (0x376, 0x377), (0x37A, 0x37D),
      (0x37F, 0x37F), (0x386, 0x386), (0x388, 0x38A), (0x38C, 0x38C), (0x38E, 0x3A1),
      (0x3A3, 0x3F5), (0x3F7, 0x481), (0x48A, 0x52F), (0x531, 0x556), (0x560, 0x588),
      (0x10A0, 0x10C5), (0x10C7, 0x10C7), (0x10CD, 0x10CD), (0x10D0, 0x10FA), (0x10FD, 0x10FF),
      (0x13A0, 0x13F5), (0x13F8, 0x13FD), (0x1C80, 0x1C88), (0x1C90, 0x1CBA), (0x1CBD, 0x1CBF),
      (0x1D00, 0x1DBF), (0x1E00, 0x1F15), (0x1F18, 0x1F1D), (0x1F20, 0x1F45), (0x1F48, 0x1F4D),
      (0x1F50, 0x1F57), (0x1F59, 0x1F59), (0x1F5B, 0x1F5B), (0x1F5D, 0x1F5D), (0x1F5F, 0x1F7D),
      (0x1F80, 0x1FB4), (0x1FB6, 0x1FBC), (0x1FBE, 0x1FBE), (0x1FC2, 0x1FC4), (0x1FC6, 0x1FCC),
      (0x1FD0, 0x1FD3), (0x1FD6, 0x1FDB), (0x1FE0, 0x1FEC), (0x1FF2, 0x1FF4), (0x1FF6, 0x1FFC),
      (0x2071, 0x2071), (0x207F, 0x207F), (0x2090, 0x209C), (0x2102, 0x2102), (0x2107, 0x2107),
      (0x210A, 0x2113), (0x2115, 0x2115), (0x2119, 0x211D), (0x2124, 0x2124), (0x2126, 0x2126),
      (0x2128, 0x2128), (0x212A, 0x212D), (0x212F, 0x2134), (0x2139, 0x2139), (0x213C, 0x213F),
      (0x2145, 0x2149), (0x214E, 0x214E), (0x2160, 0x217F), (0x2183, 0x2184), (0x24B6, 0x24E9),
      (0x2C00, 0x2CE4), (0x2CEB, 0x2CEE), (0x2CF2, 0x2CF3), (0x2D00, 0x2D25), (0x2D27, 0x2D27),
      (0x2D2D, 0x2D2D), (0xA640, 0xA66D), (0xA680, 0xA69D), (0xA722, 0xA787), (0xA78B, 0xA78E),
      (0xA790, 0xA7CA), (0xA7D0, 0xA7D1), (0xA7D3, 0xA7D3), (0xA7D5, 0xA7D9), (0xA7F5, 0xA7F6),
      (0xA7F8, 0xA7FA), (0xAB30, 0xAB5A), (0xAB5C, 0xAB68), (0xAB70, 0xABBF), (0xFB00, 0xFB06),
      (0xFB13, 0xFB17), (0xFF21, 0xFF3A), (0xFF41, 0xFF5A), (0x10400, 0x1044F),
      (0x104B0, 0x104D3), (0x104D8, 0x104FB), (0x10570, 0x1057A), (0x1057C, 0x1058A),
      (0x1058C, 0x10592), (0x10594, 0x10595), (0x10597, 0x105A1), (0x105A3, 0x105B1),
      (0x105B3, 0x105B9), (0x105BB, 0x105BC), (0x10780, 0x10780), (0x10783, 0x10785),
      (0x10787, 0x107B0), (0x107B2, 0x107BA), (0x10C80, 0x10CB2), (0x10CC0, 0x10CF2),
      (0x118A0, 0x118DF), (0x16E40, 0x16E7F), (0x1D400, 0x1D454), (0x1D456, 0x1D49C),
      (0x1D49E, 0x1D49F), (0x1D4A2, 0x1D4A2), (0x1D4A5, 0x1D4A6), (0x1D4A9, 0x1D4AC),
      (0x1D4AE, 0x1D4B9), (0x1D4BB, 0x1D4BB), (0x1D4BD, 0x1D4C3), (0x1D4C5, 0x1D505),
      (0x1D507, 0x1D50A), (0x1D50D, 0x1D514), (0x1D516, 0x1D51C), (0x1D51E, 0x1D539),
      (0x1D53B, 0x1D53E), (0x1D540, 0x1D544), (0x1D546, 0x1D546), (0x1D54A, 0x1D550),
      (0x1D552, 0x1D6A5), (0x1D6A8, 0x1D6C0), (0x1D6C2, 0x1D6DA), (0x1D6DC, 0x1D6FA),
      (0x1D6FC, 0x1D714), (0x1D716, 0x1D734), (0x1D736, 0x1D74E), (0x1D750, 0x1D76E),
      (0x1D770, 0x1D788), (0x1D78A, 0x1D7A8), (0x1D7AA, 0x1D7C2), (0x1D7C4, 0x1D7CB),
      (0x1DF00, 0x1DF09), (0x1DF0B, 0x1DF1E), (0x1E900, 0x1E943), (0x1F130, 0x1F149),
      (0x1F150, 0x1F169), (0x1F170, 0x1F189)]"

definition case_ignorable_ranges :: "(int \<times> int) list" where
  "case_ignorable_ranges =
     [(0x27, 0x27), (0x2E, 0x2E), (0x3A, 0x3A), (0x5E, 0x5E), (0x60, 0x60), (0xA8, 0xA8),
      (0xAD, 0xAD), (0xAF, 0xAF), (0xB4, 0xB4), (0xB7, 0xB8), (0x2B0, 0x36F), (0x374, 0x375),
      (0x37A, 0x37A), (0x384, 0x385), (0x387, 0x387), (0x483, 0x489), (0x559, 0x559),
      (0x55F, 0x55F), (0x591, 0x5BD), (0x5BF, 0x5BF), (0x5C1, 0x5C2), (0x5C4, 0x5C5),
      (0x5C7, 0x5C7), (0x5F4, 0x5F4), (0x600, 0x605), (0x610, 0x61A), (0x61C, 0x61C),
      (0x640, 0x640), (0x64B, 0x65F), (0x670, 0x670), (0x6D6, 0x6DD), (0x6DF, 0x6E8),
      (0x6EA, 0x6ED), (0x70F, 0x70F), (0x711, 0x711), (0x730, 0x74A), (0x7A6, 0x7B0),
      (0x7EB, 0x7F5), (0x7FA, 0x7FA), (0x7FD, 0x7FD), (0x816, 0x82D), (0x859, 0x85B),
      (0x888, 0x888), (0x890, 0x891), (0x898, 0x89F), (0x8C9, 0x902), (0x93A, 0x93A),
      (0x93C, 0x93C), (0x941, 0x948), (0x94D, 0x94D), (0x951, 0x957), (0x962, 0x963),
      (0x971, 0x971), (0x981, 0x981), (0x9BC, 0x9BC), (0x9C1, 0x9C4), (0x9CD, 0x9CD),
      (0x9E2, 0x9E3), (0x9FE, 0x9FE), (0xA01, 0xA02), (0xA3C, 0xA3C), (0xA41, 0xA42),
      (0xA47, 0xA48), (0xA4B, 0xA4D), (0xA51, 0xA51), (0xA70, 0xA71), (0xA75, 0xA75),
      (0xA81, 0xA82), (0xABC, 0xABC), (0xAC1, 0xAC5), (0xAC7, 0xAC8), (0xACD, 0xACD),
      (0xAE2, 0xAE3), (0xAFA, 0xAFF), (0xB01, 0xB01), (0xB3C, 0xB3C), (0xB3F, 0xB3F),
      (0xB41, 0xB44), (0xB4D, 0xB4D), (0xB55, 0xB56), (0xB62, 0xB63), (0xB82, 0xB82),
      (0xBC0, 0xBC0), (0xBCD, 0xBCD), (0xC00, 0xC00), (0xC04, 0xC04), (0xC3C, 0xC3C),
      (0xC3E, 0xC40), (0xC46, 0xC48), (0xC4A, 0xC4D), (0xC55, 0xC56), (0xC62, 0xC63),
      (0xC81, 0xC81), (0xCBC, 0xCBC), (0xCBF, 0xCBF), (0xCC6, 0xCC6), (0xCCC, 0xCCD),
      (0xCE2, 0xCE3), (0xD00, 0xD01), (0xD3B, 0xD3C), (0xD41, 0xD44), (0xD4D, 0xD4D),
      (0xD62, 0xD63), (0xD81, 0xD81), (0xDCA, 0xDCA), (0xDD2, 0xDD4), (0xDD6, 0xDD6),
      (0xE31, 0xE31), (0xE34, 0xE3A), (0xE46, 0xE4E), (0xEB1, 0xEB1), (0xEB4, 0xEBC),
      (0xEC6, 0xEC6), (0xEC8, 0xECD), (0xF18, 0xF19), (0xF35, 0xF35), (0xF37, 0xF37),
      (0xF39, 0xF39), (0xF71, 0xF7E), (0xF80, 0xF84), (0xF86, 0xF87), (0xF8D, 0xF97),
      (0xF99, 0xFBC), (0xFC6, 0xFC6), (0x102D, 0x1030), (0x1032, 0x1037), (0x1039, 0x103A),
      (0x103D, 0x103E), (0x1058, 0x1059), (0x105E, 0x1060), (0x1071, 0x1074), (0x1082, 0x1082),
      (0x1085, 0x1086), (0x108D, 0x108D), (0x109D, 0x109D), (0x10FC, 0x10FC), (0x135D, 0x135F),
      (0x1712, 0x1714), (0x1732, 0x1733), (0x1752, 0x1753), (0x1772, 0x1773), (0x17B4, 0x17B5),
      (0x17B7, 0x17BD), (0x17C6, 0x17C6), (0x17C9, 0x17D3), (0x17D7, 0x17D7), (0x17DD, 0x17DD),
      (0x180B, 0x180F), (0x1843, 0x1843), (0x1885, 0x1886), (0x18A9, 0x18A9), (0x1920, 0x1922),
      (0x1927, 0x1928), (0x1932, 0x1932), (0x1939, 0x193B), (0x1A17, 0x1A18), (0x1A1B, 0x1A1B),
      (0x1A56, 0x1A56), (0x1A58, 0x1A5E), (0x1A60, 0x1A60), (0x1A62, 0x1A62), (0x1A65, 0x1A6C),
      (0x1A73, 0x1A7C), (0x1A7F, 0x1A7F), (0x1AA7, 0x1AA7), (0x1AB0, 0x1ACE), (0x1B00, 0x1B03),
      (0x1B34, 0x1B34), (0x1B36, 0x1B3A), (0x1B3C, 0x1B3C), (0x1B42, 0x1B42), (0x1B6B, 0x1B73),
      (0x1B80, 0x1B81), (0x1BA2, 0x1BA5), (0x1BA8, 0x1BA9), (0x1BAB, 0x1BAD), (0x1BE6, 0x1BE6),
      (0x1BE8, 0x1BE9), (0x1BED, 0x1BED), (0x1BEF, 0x1BF1), (0x1C2C, 0x1C33), (0x1C36, 0x1C37),
      (0x1C78, 0x1C7D), (0x1CD0, 0x1CD2), (0x1CD4, 0x1CE0), (0x1CE2, 0x1CE8), (0x1CED, 0x1CED),
      (0x1CF4, 0x1CF4), (0x1CF8, 0x1CF9), (0x1D2C, 0x1D6A), (0x1D78, 0x1D78), (0x1D9B, 0x1DFF),
      (0x1FBD, 0x1FBD), (0x1FBF, 0x1FC1), (0x1FCD, 0x1FCF), (0x1FDD, 0x1FDF), (0x1FED, 0x1FEF),
      (0x1FFD, 0x1FFE), (0x200B, 0x200F), (0x2018, 0x2019), (0x2024, 0x2024), (0x2027, 0x2027),
      (0x202A, 0x202E), (0x2060, 0x2064), (0x2066, 0x206F), (0x2071, 0x2071), (0x207F, 0x207F),
      (0x2090, 0x209C), (0x20D0, 0x20F0), (0x2C7C, 0x2C7D), (0x2CEF, 0x2CF1), (0x2D6F, 0x2D6F),
      (0x2D7F, 0x2D7F), (0x2DE0, 0x2DFF), (0x2E2F, 0x2E2F), (0x3005, 0x3005), (0x302A, 0x302D),
      (0x3031, 0x3035), (0x303B, 0x303B), (0x3099, 0x309E), (0x30FC, 0x30FE), (0xA015, 0xA015),
      (0xA4F8, 0xA4FD), (0xA60C, 0xA60C), (0xA66F, 0xA672), (0xA674, 0xA67D), (0xA67F, 0xA67F),
      (0xA69C, 0xA69F), (0xA6F0, 0xA6F1), (0xA700, 0xA721), (0xA770, 0xA770), (0xA788, 0xA78A),
      (0xA7F2, 0xA7F4), (0xA7F8, 0xA7F9), (0xA802, 0xA802), (0xA806, 0xA806), (0xA80B, 0xA80B),
      (0xA825, 0xA826), (0xA82C, 0xA82C), (0xA8C4, 0xA8C5), (0xA8E0, 0xA8F1), (0xA8FF, 0xA8FF),
      (0xA926, 0xA92D), (0xA947, 0xA951), (0xA980, 0xA982), (0xA9B3, 0xA9B3), (0xA9B6, 0xA9B9),
      (0xA9BC, 0xA9BD), (0xA9CF, 0xA9CF), (0xA9E5, 0xA9E6), (0xAA29, 0xAA2E), (0xAA31, 0xAA32),
      (0xAA35, 0xAA36), (0xAA43, 0xAA43), (0xAA4C, 0xAA4C), (0xAA70, 0xAA70), (0xAA7C, 0xAA7C),
      (0xAAB0, 0xAAB0), (0xAAB2, 0xAAB4), (0xAAB7, 0xAAB8), (0xAABE, 0xAABF), (0xAAC1, 0xAAC1),
      (0xAADD, 0xAADD), (0xAAEC, 0xAAED), (0xAAF3, 0xAAF4), (0xAAF6, 0xAAF6), (0xAB5B, 0xAB5F),
      (0xAB69, 0xAB6B), (0xABE5, 0xABE5), (0xABE8, 0xABE8), (0xABED, 0xABED), (0xFB1E, 0xFB1E),
      (0xFBB2, 0xFBC2), (0xFE00, 0xFE0F), (0xFE13, 0xFE13), (0xFE20, 0xFE2F), (0xFE52, 0xFE52),
      (0xFE55, 0xFE55), (0xFEFF, 0xFEFF), (0xFF07, 0xFF07), (0xFF0E, 0xFF0E), (0xFF1A, 0xFF1A),
      (0xFF3E, 0xFF3E), (0xFF40, 0xFF40), (0xFF70, 0xFF70), (0xFF9E, 0xFF9F), (0xFFE3, 0xFFE3),
      (0xFFF9, 0xFFFB), (0x101FD, 0x101FD), (0x102E0, 0x102E0), (0x10376, 0x1037A),
      (0x10780, 0x10785), (0x10787, 0x107B0), (0x107B2, 0x107BA), (0x10A01, 0x10A03),
      (0x10A05, 0x10A06), (0x10A0C, 0x10A0F), (0x10A38, 0x10A3A), (0x10A3F, 0x10A3F),
      (0x10AE5, 0x10AE6), (0x10D24, 0x10D27), (0x10EAB, 0x10EAC), (0x10F46, 0x10F50),
      (0x10F82, 0x10F85), (0x11001, 0x11001), (0x11038, 0x11046), (0x11070, 0x11070),
      (0x11073, 0x11074), (0x1107F, 0x11081), (0x110B3, 0x110B6), (0x110B9, 0x110BA),
      (0x110BD, 0x110BD), (0x110C2, 0x110C2), (0x110CD, 0x110CD), (0x11100, 0x11102),
      (0x11127, 0x1112B), (0x1112D, 0x11134), (0x11173, 0x11173), (0x11180, 0x11181),
      (0x111B6, 0x111BE), (0x111C9, 0x111CC), (0x111CF, 0x111CF), (0x1122F, 0x11231),
      (0x11234, 0x11234), (0x11236, 0x11237), (0x1123E, 0x1123E), (0x112DF, 0x112DF),
      (0x112E3, 0x112EA), (0x11300, 0x11301), (0x1133B, 0x1133C), (0x11340, 0x11340),
      (0x11366, 0x1136C), (0x11370, 0x11374), (0x11438, 0x1143F), (0x11442, 0x11444),
      (0x11446, 0x11446), (0x1145E, 0x1145E), (0x114B3, 0x114B8), (0x114BA, 0x114BA),
      (0x114BF, 0x114C0), (0x114C2, 0x114C3), (0x115B2, 0x115B5), (0x115BC, 0x115BD),
      (0x115BF, 0x115C0), (0x115DC, 0x115DD), (0x11633, 0x1163A), (0x1163D, 0x1163D),
      (0x1163F, 0x11640), (0x116AB, 0x116AB), (0x116AD, 0x116AD), (0x116B0, 0x116B5),
      (0x116B7, 0x116B7), (0x1171D, 0x1171F), (0x11722, 0x11725), (0x11727, 0x1172B),
      (0x1182F, 0x11837), (0x11839, 0x1183A), (0x1193B, 0x1193C), (0x1193E, 0x1193E),
      (0x11943, 0x11943), (0x119D4, 0x119D7), (0x119DA, 0x119DB), (0x119E0, 0x119E0),
      (0x11A01, 0x11A0A), (0x11A33, 0x11A38), (0x11A3B, 0x11A3E), (0x11A47, 0x11A47),
      (0x11A51, 0x11A56), (0x11A59, 0x11A5B), (0x11A8A, 0x11A96), (0x11A98, 0x11A99),
      (0x11C30, 0x11C36), (0x11C38, 0x11C3D), (0x11C3F, 0x11C3F), (0x11C92, 0x11CA7),
      (0x11CAA, 0x11CB0), (0x11CB2, 0x11CB3), (0x11CB5, 0x11CB6), (0x11D31, 0x11D36),
      (0x11D3A, 0x11D3A), (0x11D3C, 0x11D3D), (0x11D3F, 0x11D45), (0x11D47, 0x11D47),
      (0x11D90, 0x11D91), (0x11D95, 0x11D95), (0x11D97, 0x11D97), (0x11EF3, 0x11EF4),
      (0x13430, 0x13438), (0x16AF0, 0x16AF4), (0x16B30, 0x16B36), (0x16B40, 0x16B43),
      (0x16F4F, 0x16F4F), (0x16F8F, 0x16F9F), (0x16FE0, 0x16FE1), (0x16FE3, 0x16FE4),
      (0x1AFF0, 0x1AFF3), (0x1AFF5, 0x1AFFB), (0x1AFFD, 0x1AFFE), (0x1BC9D, 0x1BC9E),
      (0x1BCA0, 0x1BCA3), (0x1CF00, 0x1CF2D), (0x1CF30, 0x1CF46), (0x1D167, 0x1D169),
      (0x1D173, 0x1D182), (0x1D185, 0x1D18B), (0x1D1AA, 0x1D1AD), (0x1D242, 0x1D244),
      (0x1DA00, 0x1DA36), (0x1DA3B, 0x1DA6C), (0x1DA75, 0x1DA75), (0x1DA84, 0x1DA84),
      (0x1DA9B, 0x1DA9F), (0x1DAA1, 0x1DAAF), (0x1E000, 0x1E006), (0x1E008, 0x1E018),
      (0x1E01B, 0x1E021), (0x1E023, 0x1E024), (0x1E026, 0x1E02A), (0x1E130, 0x1E13D),
      (0x1E2AE, 0x1E2AE), (0x1E2EC, 0x1E2EF), (0x1E8D0, 0x1E8D6), (0x1E944, 0x1E94B),
      (0x1F3FB, 0x1F3FF), (0xE0001, 0xE0001), (0xE0020, 0xE007F), (0xE0100, 0xE01EF)]"

definition lower_runs :: "(int \<times> int \<times> int \<times> int) list" where
  "lower_runs =
     [(0x41, 0x5A, 1, 0x61), (0xC0, 0xD6, 1, 0xE0), (0xD8, 0xDE, 1, 0xF8),
      (0x100, 0x12E, 2, 0x101), (0x132, 0x136, 2, 0x133), (0x139, 0x147, 2, 0x13A),
      (0x14A, 0x176, 2, 0x14B), (0x178, 0x178, 1, 0xFF), (0x179, 0x17D, 2, 0x17A),
      (0x181, 0x181, 1, 0x253), (0x182, 0x184, 2, 0x183), (0x186, 0x186, 1, 0x254),
      (0x187, 0x187, 1, 0x188), (0x189, 0x18A, 1, 0x256), (0x18B, 0x18B, 1, 0x18C),
      (0x18E, 0x18E, 1, 0x1DD), (0x18F, 0x18F, 1, 0x259), (0x190, 0x190, 1, 0x25B),
      (0x191, 0x191, 1, 0x192), (0x193, 0x193, 1, 0x260), (0x194, 0x194, 1, 0x263),
      (0x196, 0x196, 1, 0x269), (0x197, 0x197, 1, 0x268), (0x198, 0x198, 1, 0x199),
      (0x19C, 0x19C, 1, 0x26F), (0x19D, 0x19D, 1, 0x272), (0x19F, 0x19F, 1, 0x275),
      (0x1A0, 0x1A4, 2, 0x1A1), (0x1A6, 0x1A6, 1, 0x280), (0x1A7, 0x1A7, 1, 0x1A8),
      (0x1A9, 0x1A9, 1, 0x283), (0x1AC, 0x1AC, 1, 0x1AD), (0x1AE, 0x1AE, 1, 0x288),
      (0x1AF, 0x1AF, 1, 0x1B0), (0x1B1, 0x1B2, 1, 0x28A), (0x1B3, 0x1B5, 2, 0x1B4),
      (0x1B7, 0x1B7, 1, 0x292), (0x1B8, 0x1B8, 1, 0x1B9), (0x1BC, 0x1BC, 1, 0x1BD),
      (0x1C4, 0x1C4, 1, 0x1C6), (0x1C5, 0x1C5, 1, 0x1C6), (0x1C7, 0x1C7, 1, 0x1C9),
      (0x1C8, 0x1C8, 1, 0x1C9), (0x1CA, 0x1CA, 1, 0x1CC), (0x1CB, 0x1DB, 2, 0x1CC),
      (0x1DE, 0x1EE, 2, 0x1DF), (0x1F1, 0x1F1, 1, 0x1F3), (0x1F2, 0x1F4, 2, 0x1F3),
      (0x1F6, 0x1F6, 1, 0x195), (0x1F7, 0x1F7, 1, 0x1BF), (0x1F8, 0x21E, 2, 0x1F9),
      (0x220, 0x220, 1, 0x19E), (0x222, 0x232, 2, 0x223), (0x23A, 0x23A, 1, 0x2C65),
      (0x23B, 0x23B, 1, 0x23C), (0x23D, 0x23D, 1, 0x19A), (0x23E, 0x23E, 1, 0x2C66),
      (0x241, 0x241, 1, 0x242), (0x243, 0x243, 1, 0x180), (0x244, 0x244, 1, 0x289),
      (0x245, 0x245, 1, 0x28C), (0x246, 0x24E, 2, 0x247), (0x370, 0x372, 2, 0x371),
      (0x376, 0x376, 1, 0x377), (0x37F, 0x37F, 1, 0x3F3), (0x386, 0x386, 1, 0x3AC),
      (0x388, 0x38A, 1, 0x3AD), (0x38C, 0x38C, 1, 0x3CC), (0x38E, 0x38F, 1, 0x3CD),
      (0x391, 0x3A1, 1, 0x3B1), (0x3A4, 0x3AB, 1, 0x3C4), (0x3CF, 0x3CF, 1, 0x3D7),
      (0x3D8, 0x3EE, 2, 0x3D9), (0x3F4, 0x3F4, 1, 0x3B8), (0x3F7, 0x3F7, 1, 0x3F8),
      (0x3F9, 0x3F9, 1, 0x3F2), (0x3FA, 0x3FA, 1, 0x3FB), (0x3FD, 0x3FF, 1, 0x37B),
      (0x400, 0x40F, 1, 0x450), (0x410, 0x42F, 1, 0x430), (0x460, 0x480, 2, 0x461),
      (0x48A, 0x4BE, 2, 0x48B), (0x4C0, 0x4C0, 1, 0x4CF), (0x4C1, 0x4CD, 2, 0x4C2),
      (0x4D0, 0x52E, 2, 0x4D1), (0x531, 0x556, 1, 0x561), (0x10A0, 0x10C5, 1, 0x2D00),
      (0x10C7, 0x10C7, 1, 0x2D27), (0x10CD, 0x10CD, 1, 0x2D2D), (0x13A0, 0x13EF, 1, 0xAB70),
      (0x13F0, 0x13F5, 1, 0x13F8), (0x1C90, 0x1CBA, 1, 0x10D0), (0x1CBD, 0x1CBF, 1, 0x10FD),
      (0x1E00, 0x1E94, 2, 0x1E01), (0x1E9E, 0x1E9E, 1, 0xDF), (0x1EA0, 0x1EFE, 2, 0x1EA1),
      (0x1F08, 0x1F0F, 1, 0x1F00), (0x1F18, 0x1F1D, 1, 0x1F10), (0x1F28, 0x1F2F, 1, 0x1F20),
      (0x1F38, 0x1F3F, 1, 0x1F30), (0x1F48, 0x1F4D, 1, 0x1F40), (0x1F59, 0x1F5F, 2, 0x1F51),
      (0x1F68, 0x1F6F, 1, 0x1F60), (0x1F88, 0x1F8F, 1, 0x1F80), (0x1F98, 0x1F9F, 1, 0x1F90),
      (0x1FA8, 0x1FAF, 1, 0x1FA0), (0x1FB8, 0x1FB9, 1, 0x1FB0), (0x1FBA, 0x1FBB, 1, 0x1F70),
      (0x1FBC, 0x1FBC, 1, 0x1FB3), (0x1FC8, 0x1FCB, 1, 0x1F72), (0x1FCC, 0x1FCC, 1, 0x1FC3),
      (0x1FD8, 0x1FD9, 1, 0x1FD0), (0x1FDA, 0x1FDB, 1, 0x1F76), (0x1FE8, 0x1FE9, 1, 0x1FE0),
      (0x1FEA, 0x1FEB, 1, 0x1F7A), (0x1FEC, 0x1FEC, 1, 0x1FE5), (0x1FF8, 0x1FF9, 1, 0x1F78),
      (0x1FFA, 0x1FFB, 1, 0x1F7C), (0x1FFC, 0x1FFC, 1, 0x1FF3), (0x2126, 0x2126, 1, 0x3C9),
      (0x212A, 0x212A, 1, 0x6B), (0x212B, 0x212B, 1, 0xE5), (0x2132, 0x2132, 1, 0x214E),
      (0x2160, 0x216F, 1, 0x2170), (0x2183, 0x2183, 1, 0x2184), (0x24B6, 0x24CF, 1, 0x24D0),
      (0x2C00, 0x2C2F, 1, 0x2C30), (0x2C60, 0x2C60, 1, 0x2C61), (0x2C62, 0x2C62, 1, 0x26B),
      (0x2C63, 0x2C63, 1, 0x1D7D), (0x2C64, 0x2C64, 1, 0x27D), (0x2C67, 0x2C6B, 2, 0x2C68),
      (0x2C6D, 0x2C6D, 1, 0x251), (0x2C6E, 0x2C6E, 1, 0x271), (0x2C6F, 0x2C6F, 1, 0x250),
      (0x2C70, 0x2C70, 1, 0x252), (0x2C72, 0x2C72, 1, 0x2C73), (0x2C75, 0x2C75, 1, 0x2C76),
      (0x2C7E, 0x2C7F, 1, 0x23F), (0x2C80, 0x2CE2, 2, 0x2C81), (0x2CEB, 0x2CED, 2, 0x2CEC),
      (0x2CF2, 0x2CF2, 1, 0x2CF3), (0xA640, 0xA66C, 2, 0xA641), (0xA680, 0xA69A, 2, 0xA681),
      (0xA722, 0xA72E, 2, 0xA723), (0xA732, 0xA76E, 2, 0xA733), (0xA779, 0xA77B, 2, 0xA77A),
      (0xA77D, 0xA77D, 1, 0x1D79), (0xA77E, 0xA786, 2, 0xA77F), (0xA78B, 0xA78B, 1, 0xA78C),
      (0xA78D, 0xA78D, 1, 0x265), (0xA790, 0xA792, 2, 0xA791), (0xA796, 0xA7A8, 2, 0xA797),
      (0xA7AA, 0xA7AA, 1, 0x266), (0xA7AB, 0xA7AB, 1, 0x25C), (0xA7AC, 0xA7AC, 1, 0x261),
      (0xA7AD, 0xA7AD, 1, 0x26C), (0xA7AE, 0xA7AE, 1, 0x26A), (0xA7B0, 0xA7B0, 1, 0x29E),
      (0xA7B1, 0xA7B1, 1, 0x287), (0xA7B2, 0xA7B2, 1, 0x29D), (0xA7B3, 0xA7B3, 1, 0xAB53),
      (0xA7B4, 0xA7C2, 2, 0xA7B5), (0xA7C4, 0xA7C4, 1, 0xA794), (0xA7C5, 0xA7C5, 1, 0x282),
      (0xA7C6, 0xA7C6, 1, 0x1D8E), (0xA7C7, 0xA7C9, 2, 0xA7C8), (0xA7D0, 0xA7D0, 1, 0xA7D1),
      (0xA7D6, 0xA7D8, 2, 0xA7D7), (0xA7F5, 0xA7F5, 1, 0xA7F6), (0xFF21, 0xFF3A, 1, 0xFF41),
      (0x10400, 0x10427, 1, 0x10428), (0x104B0, 0x104D3, 1, 0x104D8),
      (0x10570, 0x1057A, 1, 0x10597), (0x1057C, 0x1058A, 1, 0x105A3),
      (0x1058C, 0x10592, 1, 0x105B3), (0x10594, 0x10595, 1, 0x105BB),
      (0x10C80, 0x10CB2, 1, 0x10CC0), (0x118A0, 0x118BF, 1, 0x118C0),
      (0x16E40, 0x16E5F, 1, 0x16E60), (0x1E900, 0x1E921, 1, 0x1E922)]"

definition py_isspace :: "int \<Rightarrow> bool" where
  "py_isspace c = in_ranges whitespace_ranges c"

definition cased :: "int \<Rightarrow> bool" where
  "cased c = in_ranges cased_ranges c"

definition case_ignorable :: "int \<Rightarrow> bool" where
  "case_ignorable c = in_ranges case_ignorable_ranges c"

fun lower_in :: "(int \<times> int \<times> int \<times> int) list \<Rightarrow> int \<Rightarrow> int" where
  "lower_in [] c = c"
| "lower_in ((lo, hi, step, target) # rs) c =
     (if c < lo then c
      else if c \<le> hi then (if (c - lo) mod step = 0 then target + (c - lo) else c)
      else lower_in rs c)"

text \<open>
  \<^verbatim>\<open>_PyUnicode_ToLowerFull\<close>: one code point, but for the capital I with a dot, which
  becomes an i and a combining dot.
\<close>

definition to_lower_full :: "int \<Rightarrow> int list" where
  "to_lower_full c = (if c = 0x130 then [0x69, 0x307] else [lower_in lower_runs c])"

text \<open>
  \<^verbatim>\<open>handle_capital_sigma\<close>: a capital sigma becomes the final sigma when, the case-ignorable
  code points skipped, a cased one stands before it and none after it. \<open>before\<close> holds the
  code points before the sigma, the nearest first.
\<close>

definition handle_capital_sigma :: "int list \<Rightarrow> int list \<Rightarrow> int" where
  "handle_capital_sigma before after =
     (let final_sigma =
            (case dropWhile case_ignorable before of
               [] \<Rightarrow> False
             | c # cs \<Rightarrow>
                 cased c \<and>
                 (case dropWhile case_ignorable after of [] \<Rightarrow> True | d # ds \<Rightarrow> \<not> cased d))
      in if final_sigma then 0x3C2 else 0x3C3)"

fun do_lower :: "int list \<Rightarrow> int list \<Rightarrow> int list" where
  "do_lower before [] = []"
| "do_lower before (c # rest) =
     (if c = 0x3A3 then [handle_capital_sigma before rest] else to_lower_full c)
     @ do_lower (c # before) rest"

text \<open>\<^verbatim>\<open>str.strip()\<close> and \<^verbatim>\<open>str.lower()\<close>\<close>

definition py_strip :: "string \<Rightarrow> string" where
  "py_strip s = utf8_encode (rev (dropWhile py_isspace (rev (dropWhile py_isspace (utf8_decode s)))))"

definition py_lower :: "string \<Rightarrow> string" where
  "py_lower s = utf8_encode (do_lower [] (utf8_decode s))"

section \<open>Normalising a category\<close>

text \<open>The Korean literals of \<^verbatim>\<open>normalize_category\<close>, as their UTF-8 bytes.\<close>

definition goods_kr :: string where
  "goods_kr = [CHR 0xEA, CHR 0xB5, CHR 0xBF, CHR 0xEC, CHR 0xA6, CHR 0x88]"

definition album_kr :: string where
  "album_kr = [CHR 0xEC, CHR 0x95, CHR 0xA8, CHR 0xEB, CHR 0xB2, CHR 0x94]"

definition normalize_category :: "string \<Rightarrow> string" where
  "normalize_category v =
     (if v = [] then ''album''
      else let cleaned = py_lower (py_strip v) in
        if cleaned \<in> set [''md'', ''md/'' @ goods_kr, ''merch'', goods_kr] then ''md''
        else if cleaned \<in> set [''album'', album_kr] then ''album''
        else if cleaned = [] then ''album'' else cleaned)"

section \<open>The ledger engine\<close>

text \<open>\<^verbatim>\<open>period in periods\<close> when \<^verbatim>\<open>periods\<close> is a string: the substring test.\<close>

fun py_in_str :: "string \<Rightarrow> string \<Rightarrow> bool" where
  "py_in_str p [] = (p = [])"
| "py_in_str p (c # cs) = (take (length p) (c # cs) = p \<or> py_in_str p cs)"

text \<open>
  The last three statements of \<^verbatim>\<open>ensure_period\<close>: the snapshot of the live stock, the
  new period record, the new current period. \<open>now\<close> is \<^verbatim>\<open>datetime.now().isoformat()\<close>.
\<close>

definition start_period :: "pydict \<Rightarrow> pydict \<Rightarrow> string \<Rightarrow> string \<Rightarrow> pydict" where
  "start_period data periods p now =
     AList.update ''current_period'' (JStr p)
       (AList.update ''periods''
          (JDict (AList.update p
             (JDict [(''opening_stock'', (case map_of data ''stock'' of None \<Rightarrow> JDict [] | Some s \<Rightarrow> s)),
                     (''created_at'', JStr now)]) periods))
          data)"

text \<open>
  \<^verbatim>\<open>ensure_period\<close>. After the upgrader and the \<^verbatim>\<open>setdefault\<close>, the three tests in the
  order of the source. \<^verbatim>\<open>period < current\<close> is defined between strings only; the
  assignment \<^verbatim>\<open>periods[period] = ...\<close> is defined on a dict only.
\<close>

definition ensure_period :: "pydict \<Rightarrow> string \<Rightarrow> string \<Rightarrow> outcome" where
  "ensure_period data0 p now =
     and_then (ensure_new_schema data0) (\<lambda>data1.
       let current = (case map_of data1 ''current_period'' of None \<Rightarrow> JNull | Some c \<Rightarrow> c);
           data = setdefault ''periods'' (JDict []) data1;
           periods = (case map_of data ''periods'' of None \<Rightarrow> JNull | Some ps \<Rightarrow> ps)
       in
       (case (case periods of
                JDict ps \<Rightarrow> Inr (map_of ps p \<noteq> None)
              | JList xs \<Rightarrow> Inr (JStr p \<in> set xs)
              | JStr s \<Rightarrow> Inr (py_in_str p s)
              | _ \<Rightarrow> Inl TypeError) of
          Inl e \<Rightarrow> (Some e, data)
        | Inr True \<Rightarrow> (None, data)
        | Inr False \<Rightarrow>
            (case (if truthy current
                   then (case current of JStr c \<Rightarrow> Inr (p < c) | _ \<Rightarrow> Inl TypeError)
                   else Inr False) of
               Inl e \<Rightarrow> (Some e, data)
             | Inr True \<Rightarrow> (None, data)
             | Inr False \<Rightarrow>
                 if current = JStr p then (None, data)
                 else (case periods of
                         JDict ps \<Rightarrow> (None, start_period data ps p now)
                       | _ \<Rightarrow> (Some TypeError, data)))))"

definition option_key :: "string \<Rightarrow> string" where
  "option_key opt = (if opt \<noteq> [] then opt else '''')"

text \<open>\<^verbatim>\<open>x + quantity\<close> and \<^verbatim>\<open>x < quantity\<close> for a value \<open>x\<close> of the document and an \<^verbatim>\<open>int\<close>.\<close>

fun py_add :: "json \<Rightarrow> int \<Rightarrow> error + json" where
  "py_add (JInt a) q = Inr (JInt (a + q))"
| "py_add (JBool b) q = Inr (JInt ((if b then 1 else 0) + q))"
| "py_add v q = Inl TypeError"

fun py_less :: "json \<Rightarrow> int \<Rightarrow> error + bool" where
  "py_less (JInt a) q = Inr (a < q)"
| "py_less (JBool b) q = Inr ((if b then 1 else 0) < q)"
| "py_less v q = Inl TypeError"

text \<open>
  \<^verbatim>\<open>update_stock\<close>. Each \<^verbatim>\<open>setdefault\<close> has happened when a later line raises, so the
  document returned with an exception holds the maps created so far.
\<close>

definition update_stock :: "pydict \<Rightarrow> string \<Rightarrow> string \<Rightarrow> string \<Rightarrow> int \<Rightarrow> outcome" where
  "update_stock data0 item opt location quantity =
     and_then (ensure_new_schema (setdefault ''stock'' (JDict []) data0)) (\<lambda>data.
       case map_of data ''stock'' of
         None \<Rightarrow> (Some (KeyError ''stock''), data)
       | Some (JDict stock0) \<Rightarrow>
           (let stock = setdefault item (JDict []) stock0 in
            case map_of stock item of
              Some (JDict option_map0) \<Rightarrow>
                (let option_map = setdefault (option_key opt) (JDict []) option_map0;
                     put = (\<lambda>locations.
                       AList.update ''stock''
                         (JDict (AList.update item
                            (JDict (AList.update (option_key opt) locations option_map)) stock))
                         data)
                 in
                 case map_of option_map (option_key opt) of
                   Some (JDict locations) \<Rightarrow>
                     (case py_add (case map_of locations location of None \<Rightarrow> JInt 0 | Some q \<Rightarrow> q)
                             quantity of
                        Inr v \<Rightarrow> (None, put (JDict (AList.update location v locations)))
                      | Inl e \<Rightarrow> (Some e, put (JDict locations)))
                 | Some v \<Rightarrow> (Some AttributeError, put v)
                 | None \<Rightarrow> (Some AttributeError, data))
            | _ \<Rightarrow> (Some AttributeError, AList.update ''stock'' (JDict stock) data))
       | Some v \<Rightarrow> (Some AttributeError, data))"

text \<open>
  The chain of \<^verbatim>\<open>get\<close> calls that reads \<^verbatim>\<open>available\<close> in \<^verbatim>\<open>record_transaction\<close>: a missing
  key gives the default, a value that is not a dict has no \<^verbatim>\<open>get\<close>.
\<close>

definition get_available :: "pydict \<Rightarrow> string \<Rightarrow> string \<Rightarrow> string \<Rightarrow> error + json" where
  "get_available data item okey location =
     (case map_of data ''stock'' of
        None \<Rightarrow> Inr (JInt 0)
      | Some (JDict stock) \<Rightarrow>
          (case map_of stock item of
             None \<Rightarrow> Inr (JInt 0)
           | Some (JDict option_map) \<Rightarrow>
               (case map_of option_map okey of
                  None \<Rightarrow> Inr (JInt 0)
                | Some (JDict locations) \<Rightarrow>
                    Inr (case map_of locations location of None \<Rightarrow> JInt 0 | Some q \<Rightarrow> q)
                | Some v \<Rightarrow> Inl AttributeError)
           | Some v \<Rightarrow> Inl AttributeError)
      | Some v \<Rightarrow> Inl AttributeError)"

text \<open>\<^verbatim>\<open>data.setdefault("history", []).append(entry)\<close>\<close>

definition append_history :: "pydict \<Rightarrow> json \<Rightarrow> outcome" where
  "append_history data entry =
     (case map_of data ''history'' of
        None \<Rightarrow> (None, data @ [(''history'', JList [entry])])
      | Some (JList h) \<Rightarrow> (None, AList.update ''history'' (JList (h @ [entry])) data)
      | Some v \<Rightarrow> (Some AttributeError, data))"

text \<open>
  The stock part of \<^verbatim>\<open>record_transaction\<close>: the branch on \<^verbatim>\<open>transaction.type\<close>, with the
  availability test of an outbound movement. \<^verbatim>\<open>available < transaction.quantity\<close> is
  evaluated before \<^verbatim>\<open>not allow_negative\<close>.
\<close>

definition move_stock :: "pydict \<Rightarrow> transaction \<Rightarrow> bool \<Rightarrow> outcome" where
  "move_stock data t allow_negative =
     (if tx_type t = ''out'' then
        (case get_available data (tx_item t) (option_key (tx_option t)) (tx_location t) of
           Inl e \<Rightarrow> (Some e, data)
         | Inr available \<Rightarrow>
             (case py_less available (tx_quantity t) of
                Inl e \<Rightarrow> (Some e, data)
              | Inr short \<Rightarrow>
                  if short \<and> \<not> allow_negative
                  then (Some (InsufficientStock (tx_item t) (tx_location t) available (tx_quantity t)), data)
                  else update_stock data (tx_item t) (tx_option t) (tx_location t) (- tx_quantity t)))
      else update_stock data (tx_item t) (tx_option t) (tx_location t) (tx_quantity t))"

text \<open>
  The metadata part of \<^verbatim>\<open>record_transaction\<close>: look the item up or create its entry,
  compare the artist, then write artist, category and (when not empty) option.
\<close>

definition bind_metadata :: "pydict \<Rightarrow> transaction \<Rightarrow> outcome" where
  "bind_metadata data0 t =
     (let data = setdefault ''item_metadata'' (JDict []) data0 in
      case map_of data ''item_metadata'' of
        Some (JDict metadata0) \<Rightarrow>
          (let metadata = setdefault (tx_item t) (JDict []) metadata0;
               data1 = AList.update ''item_metadata'' (JDict metadata) data
           in
           case map_of metadata (tx_item t) of
             Some (JDict info) \<Rightarrow>
               (let existing_artist = (case map_of info ''artist'' of None \<Rightarrow> JNull | Some a \<Rightarrow> a) in
                if truthy existing_artist \<and> existing_artist \<noteq> JStr (tx_artist t)
                then (Some (ArtistMismatch (tx_item t) existing_artist), data1)
                else
                  (let info1 = AList.update ''artist'' (JStr (tx_artist t)) info;
                       info2 = AList.update ''category'' (JStr (normalize_category (tx_category t))) info1;
                       info3 = (if tx_option t \<noteq> [] then AList.update ''option'' (JStr (tx_option t)) info2
                                else info2)
                   in (None, AList.update ''item_metadata''
                               (JDict (AList.update (tx_item t) (JDict info3) metadata)) data)))
           | _ \<Rightarrow> (Some AttributeError, data1))
      | _ \<Rightarrow> (Some AttributeError, data))"

text \<open>\<^verbatim>\<open>record_transaction\<close>; \<open>now\<close> is the clock reading \<^verbatim>\<open>ensure_period\<close> takes.\<close>

definition record_transaction :: "pydict \<Rightarrow> transaction \<Rightarrow> bool \<Rightarrow> string \<Rightarrow> outcome" where
  "record_transaction data t allow_negative now =
     and_then (and_then (and_then (and_then
       (ensure_period data (period t) now)
       ensure_new_schema)
       (\<lambda>d. bind_metadata d t))
       (\<lambda>d. move_stock d t allow_negative))
       (\<lambda>d. append_history d (JDict (to_dict t)))"

section \<open>Summarising history\<close>

text \<open>
  A key of the summary: \<^verbatim>\<open>summarize\<close> is annotated to return string keys. A list or a
  dict is unhashable; another value that is not a string is where the model stops.
\<close>

fun str_key :: "json \<Rightarrow> error + string" where
  "str_key (JStr s) = Inr s"
| "str_key (JList xs) = Inl TypeError"
| "str_key (JDict m) = Inl TypeError"
| "str_key v = Inl Unmodelled"

definition subscript :: "pydict \<Rightarrow> string \<Rightarrow> error + json" where
  "subscript e k = (case map_of e k of None \<Rightarrow> Inl (KeyError k) | Some v \<Rightarrow> Inr v)"

definition or_else :: "error + 'a \<Rightarrow> ('a \<Rightarrow> error + 'b) \<Rightarrow> error + 'b" where
  "or_else r f = (case r of Inl e \<Rightarrow> Inl e | Inr v \<Rightarrow> f v)"

text \<open>
  The three lines \<^verbatim>\<open>summarize\<close> shares with \<^verbatim>\<open>update_stock\<close>, on the summary: two
  \<^verbatim>\<open>setdefault\<close> calls and the addition.
\<close>

definition add_to_summary :: "pydict \<Rightarrow> string \<Rightarrow> string \<Rightarrow> string \<Rightarrow> int \<Rightarrow> error + pydict" where
  "add_to_summary summary0 item opt location amount =
     (let summary = setdefault item (JDict []) summary0 in
      case map_of summary item of
        Some (JDict option_map0) \<Rightarrow>
          (let option_map = setdefault opt (JDict []) option_map0 in
           case map_of option_map opt of
             Some (JDict locations) \<Rightarrow>
               or_else (py_add (case map_of locations location of None \<Rightarrow> JInt 0 | Some q \<Rightarrow> q) amount)
                 (\<lambda>v. Inr (AList.update item
                         (JDict (AList.update opt (JDict (AList.update location v locations)) option_map))
                         summary))
           | _ \<Rightarrow> Inl AttributeError)
      | _ \<Rightarrow> Inl AttributeError)"

text \<open>The body of the loop of \<^verbatim>\<open>summarize\<close>, in the order the source evaluates it.\<close>

definition summarize_entry :: "pydict \<Rightarrow> json \<Rightarrow> error + pydict" where
  "summarize_entry summary entry =
     (case entry of
        JDict e \<Rightarrow>
          or_else (subscript e ''item'') (\<lambda>item.
            let opt = (case map_of e ''option'' of
                         None \<Rightarrow> JStr ''''
                       | Some v \<Rightarrow> if truthy v then v else JStr '''') in
            or_else (subscript e ''location'') (\<lambda>location.
            or_else (subscript e ''type'') (\<lambda>ty.
            or_else (str_key item) (\<lambda>item_k.
            or_else (str_key opt) (\<lambda>opt_k.
            or_else (str_key location) (\<lambda>location_k.
            or_else (subscript e ''quantity'') (\<lambda>quantity.
              case quantity of
                JInt q \<Rightarrow> add_to_summary summary item_k opt_k location_k
                            ((if ty = JStr ''in'' then 1 else - 1) * q)
              | JBool b \<Rightarrow> add_to_summary summary item_k opt_k location_k
                            ((if ty = JStr ''in'' then 1 else - 1) * (if b then 1 else 0))
              | _ \<Rightarrow> Inl TypeError)))))))
      | _ \<Rightarrow> Inl TypeError)"

fun summarize_from :: "pydict \<Rightarrow> json list \<Rightarrow> error + pydict" where
  "summarize_from summary [] = Inr summary"
| "summarize_from summary (entry # entries) =
     (case summarize_entry summary entry of
        Inl e \<Rightarrow> Inl e
      | Inr summary' \<Rightarrow> summarize_from summary' entries)"

definition summarize :: "json list \<Rightarrow> error + pydict" where
  "summarize entries = summarize_from [] entries"

section \<open>Reading the document\<close>

text \<open>\<^verbatim>\<open>d.get(k, default)\<close>, the way the code reads every field of the document.\<close>

definition get_or :: "pydict \<Rightarrow> string \<Rightarrow> json \<Rightarrow> json" where
  "get_or d k dflt = (case map_of d k of None \<Rightarrow> dflt | Some v \<Rightarrow> v)"

text \<open>
  The entry \<^verbatim>\<open>stock[item][option][location]\<close> of a stock map, when all three keys are
  there, and the same entry of the document's live stock. \<open>stock_quantity\<close> is the
  quantity with the default 0 of a key that is absent.
\<close>

definition qty_at :: "pydict \<Rightarrow> string \<Rightarrow> string \<Rightarrow> string \<Rightarrow> json option" where
  "qty_at stock item okey location =
     (case map_of stock item of
        Some (JDict option_map) \<Rightarrow>
          (case map_of option_map okey of
             Some (JDict locations) \<Rightarrow> map_of locations location
           | _ \<Rightarrow> None)
      | _ \<Rightarrow> None)"

definition stock_at :: "pydict \<Rightarrow> string \<Rightarrow> string \<Rightarrow> string \<Rightarrow> json option" where
  "stock_at d item okey location =
     (case map_of d ''stock'' of Some (JDict stock) \<Rightarrow> qty_at stock item okey location | _ \<Rightarrow> None)"

definition stock_quantity :: "pydict \<Rightarrow> string \<Rightarrow> string \<Rightarrow> string \<Rightarrow> int" where
  "stock_quantity d item okey location =
     (case stock_at d item okey location of Some (JInt n) \<Rightarrow> n | _ \<Rightarrow> 0)"

section \<open>Documents of the current schema\<close>

text \<open>
  The shape the data model gives a document: the stock is a map from item to option to
  location to an integer; every metadata entry is a dict; every period record holds an
  opening stock of the same shape as the live stock; the current period is \<^verbatim>\<open>None\<close> or a
  string; every history entry is a dict that has the four event and category fields.
  The stock is present (any run of the upgrader leaves it so); the other fields may be
  missing, and are then read with the defaults the code reads them with.
\<close>

fun is_quantity :: "json \<Rightarrow> bool" where
  "is_quantity (JInt n) = True"
| "is_quantity v = False"

fun is_location_map :: "json \<Rightarrow> bool" where
  "is_location_map (JDict locations) = list_all (\<lambda>kv. is_quantity (snd kv)) locations"
| "is_location_map v = False"

fun is_option_map :: "json \<Rightarrow> bool" where
  "is_option_map (JDict option_map) = list_all (\<lambda>kv. is_location_map (snd kv)) option_map"
| "is_option_map v = False"

fun is_stock_map :: "json \<Rightarrow> bool" where
  "is_stock_map (JDict stock) = list_all (\<lambda>kv. is_option_map (snd kv)) stock"
| "is_stock_map v = False"

fun is_period_info :: "json \<Rightarrow> bool" where
  "is_period_info (JDict p) = (case map_of p ''opening_stock'' of Some s \<Rightarrow> is_stock_map s | None \<Rightarrow> False)"
| "is_period_info v = False"

fun is_history_entry :: "json \<Rightarrow> bool" where
  "is_history_entry (JDict e) =
     (map_of e ''event'' \<noteq> None \<and> map_of e ''event_id'' \<noteq> None \<and>
      map_of e ''event_open'' \<noteq> None \<and> map_of e ''category'' \<noteq> None)"
| "is_history_entry v = False"

fun is_metadata :: "json \<Rightarrow> bool" where
  "is_metadata (JDict m) = list_all (\<lambda>kv. isinstance_dict (snd kv)) m"
| "is_metadata v = False"

fun is_periods :: "json \<Rightarrow> bool" where
  "is_periods (JDict ps) = list_all (\<lambda>kv. is_period_info (snd kv)) ps"
| "is_periods v = False"

fun is_current_period :: "json \<Rightarrow> bool" where
  "is_current_period JNull = True"
| "is_current_period (JStr c) = True"
| "is_current_period v = False"

fun is_history :: "json \<Rightarrow> bool" where
  "is_history (JList h) = list_all is_history_entry h"
| "is_history v = False"

definition current_schema :: "pydict \<Rightarrow> bool" where
  "current_schema d =
     (map_of d ''stock'' \<noteq> None \<and>
      is_stock_map (get_or d ''stock'' JNull) \<and>
      is_metadata (get_or d ''item_metadata'' (JDict [])) \<and>
      is_periods (get_or d ''periods'' (JDict [])) \<and>
      is_current_period (get_or d ''current_period'' JNull) \<and>
      is_history (get_or d ''history'' (JList [])))"

text \<open>An already-upgraded document: one of the current schema that the upgrader returns as it is.\<close>

definition already_upgraded :: "pydict \<Rightarrow> bool" where
  "already_upgraded d = (current_schema d \<and> ensure_new_schema d = (None, d))"

text \<open>
  The artist \<^verbatim>\<open>item_metadata[item]\<close> records, if any, and the test \<^verbatim>\<open>record_transaction\<close>
  makes on it: a recorded artist that is not empty and differs from the transaction's.
\<close>

definition recorded_artist :: "pydict \<Rightarrow> string \<Rightarrow> json option" where
  "recorded_artist d item =
     (case get_or d ''item_metadata'' (JDict []) of
        JDict metadata \<Rightarrow>
          (case map_of metadata item of Some (JDict info) \<Rightarrow> map_of info ''artist'' | _ \<Rightarrow> None)
      | _ \<Rightarrow> None)"

definition artist_conflict :: "pydict \<Rightarrow> transaction \<Rightarrow> bool" where
  "artist_conflict d t =
     (case recorded_artist d (tx_item t) of
        Some a \<Rightarrow> truthy a \<and> a \<noteq> JStr (tx_artist t)
      | None \<Rightarrow> False)"

text \<open>The entry \<^verbatim>\<open>item_metadata[item]\<close> itself.\<close>

definition metadata_entry :: "pydict \<Rightarrow> string \<Rightarrow> pydict option" where
  "metadata_entry d item =
     (case get_or d ''item_metadata'' (JDict []) of
        JDict metadata \<Rightarrow> (case map_of metadata item of Some (JDict info) \<Rightarrow> Some info | _ \<Rightarrow> None)
      | _ \<Rightarrow> None)"

section \<open>Sequences of calls and the replay of history\<close>

text \<open>
  A sequence of \<^verbatim>\<open>record_transaction\<close> calls, each with its transaction, its
  \<^verbatim>\<open>allow_negative\<close> flag and the clock reading of the call. The result is the document
  after the last call when every call returned, and \<open>None\<close> when one of them raised.
\<close>

fun record_all :: "pydict \<Rightarrow> (transaction \<times> bool \<times> string) list \<Rightarrow> pydict option" where
  "record_all d [] = Some d"
| "record_all d (c # cs) =
     (case record_transaction d (fst c) (fst (snd c)) (snd (snd c)) of
        (None, d') \<Rightarrow> record_all d' cs
      | (Some e, d') \<Rightarrow> None)"

definition in_or_out :: "(transaction \<times> bool \<times> string) \<Rightarrow> bool" where
  "in_or_out c = (tx_type (fst c) = ''in'' \<or> tx_type (fst c) = ''out'')"

text \<open>
  The replay in the words of the specification: the net signed quantity of the history
  entries of one key, \<open>+quantity\<close> for an entry of type \<open>in\<close> and \<open>-quantity\<close> for one of
  type \<open>out\<close>.
\<close>

definition entry_effect :: "json \<Rightarrow> string \<Rightarrow> string \<Rightarrow> string \<Rightarrow> int" where
  "entry_effect entry item okey location =
     (case entry of
        JDict e \<Rightarrow>
          (if map_of e ''item'' = Some (JStr item) \<and> get_or e ''option'' (JStr '''') = JStr okey \<and>
              map_of e ''location'' = Some (JStr location)
           then (case map_of e ''quantity'' of
                   Some (JInt q) \<Rightarrow>
                     (if map_of e ''type'' = Some (JStr ''in'') then q
                      else if map_of e ''type'' = Some (JStr ''out'') then - q else 0)
                 | _ \<Rightarrow> 0)
           else 0)
      | _ \<Rightarrow> 0)"

definition net_quantity :: "json list \<Rightarrow> string \<Rightarrow> string \<Rightarrow> string \<Rightarrow> int" where
  "net_quantity h item okey location = sum_list (map (\<lambda>e. entry_effect e item okey location) h)"

section \<open>What the upgrader does to a document of the current schema\<close>

text \<open>
  On a document of the current schema the stock, period and history loops of the upgrader
  find nothing to change; what is left is the two metadata loops, which give every entry a
  \<^verbatim>\<open>last_audit\<close> dict and a category, and the \<^verbatim>\<open>setdefault\<close> that creates \<^verbatim>\<open>item_metadata\<close>.
\<close>

definition upgrade_info :: "json \<Rightarrow> json" where
  "upgrade_info info = ensure_category (ensure_last_audit info)"

definition upgraded_metadata :: "pydict \<Rightarrow> pydict" where
  "upgraded_metadata d =
     (case map_of d ''item_metadata'' of
        None \<Rightarrow> d @ [(''item_metadata'', JDict [])]
      | Some (JDict m) \<Rightarrow>
          AList.update ''item_metadata'' (JDict (map (\<lambda>kv. (fst kv, upgrade_info (snd kv))) m)) d
      | Some v \<Rightarrow> d)"

section \<open>The three cases in which a period is not started\<close>

text \<open>
  The period key already has a record; the current period is set (a non-empty string) and
  the key is strictly earlier; the key is the current period. \<open>periods_list\<close> is the
  periods mapping, read with the default.
\<close>

definition has_period :: "pydict \<Rightarrow> string \<Rightarrow> bool" where
  "has_period d p = (case get_or d ''periods'' (JDict []) of JDict ps \<Rightarrow> map_of ps p \<noteq> None | _ \<Rightarrow> False)"

definition earlier_than_current :: "pydict \<Rightarrow> string \<Rightarrow> bool" where
  "earlier_than_current d p =
     (case get_or d ''current_period'' JNull of JStr c \<Rightarrow> c \<noteq> [] \<and> p < c | _ \<Rightarrow> False)"

definition is_current :: "pydict \<Rightarrow> string \<Rightarrow> bool" where
  "is_current d p = (get_or d ''current_period'' JNull = JStr p)"

definition periods_list :: "pydict \<Rightarrow> pydict" where
  "periods_list d = (case get_or d ''periods'' (JDict []) of JDict ps \<Rightarrow> ps | _ \<Rightarrow> [])"

section \<open>Reading and writing one quantity of a stock map\<close>

text \<open>
  The option map of an item and the location map of an option, empty when the key is
  missing; the quantity of a key with the default 0; and the stock map in which
  \<^verbatim>\<open>stock[item][option][location]\<close> is set to a number, with the intermediate maps created
  as needed. \<open>stock_list\<close> is the live stock of a document.
\<close>

definition option_map_of :: "pydict \<Rightarrow> string \<Rightarrow> pydict" where
  "option_map_of stock item = (case map_of stock item of Some (JDict option_map) \<Rightarrow> option_map | _ \<Rightarrow> [])"

definition locations_of :: "pydict \<Rightarrow> string \<Rightarrow> pydict" where
  "locations_of option_map okey = (case map_of option_map okey of Some (JDict locations) \<Rightarrow> locations | _ \<Rightarrow> [])"

definition quantity_in :: "pydict \<Rightarrow> string \<Rightarrow> string \<Rightarrow> string \<Rightarrow> int" where
  "quantity_in stock item okey location =
     (case qty_at stock item okey location of Some (JInt n) \<Rightarrow> n | _ \<Rightarrow> 0)"

definition put_quantity :: "pydict \<Rightarrow> string \<Rightarrow> string \<Rightarrow> string \<Rightarrow> int \<Rightarrow> pydict" where
  "put_quantity stock item okey location n =
     AList.update item
       (JDict (AList.update okey
          (JDict (AList.update location (JInt n) (locations_of (option_map_of stock item) okey)))
          (option_map_of stock item)))
       stock"

definition stock_list :: "pydict \<Rightarrow> pydict" where
  "stock_list d = (case map_of d ''stock'' of Some (JDict stock) \<Rightarrow> stock | _ \<Rightarrow> [])"

section \<open>Reading the metadata and the history\<close>

text \<open>
  The item metadata and the history of a document, read with their defaults; the entry of
  one item, empty when the item has none; and the entry \<^verbatim>\<open>record_transaction\<close> leaves for
  the item of a transaction: artist, normalised category and, when not empty, the option.
\<close>

definition metadata_list :: "pydict \<Rightarrow> pydict" where
  "metadata_list d = (case get_or d ''item_metadata'' (JDict []) of JDict m \<Rightarrow> m | _ \<Rightarrow> [])"

definition info_of :: "pydict \<Rightarrow> string \<Rightarrow> pydict" where
  "info_of metadata item = (case map_of metadata item of Some (JDict info) \<Rightarrow> info | _ \<Rightarrow> [])"

definition bound_info :: "transaction \<Rightarrow> pydict \<Rightarrow> pydict" where
  "bound_info t info =
     (let info2 = AList.update ''category'' (JStr (normalize_category (tx_category t)))
                    (AList.update ''artist'' (JStr (tx_artist t)) info)
      in if tx_option t \<noteq> [] then AList.update ''option'' (JStr (tx_option t)) info2 else info2)"

definition history_list :: "pydict \<Rightarrow> json list" where
  "history_list d = (case get_or d ''history'' (JList []) of JList h \<Rightarrow> h | _ \<Rightarrow> [])"

section \<open>The stages of record_transaction\<close>

text \<open>
  The document when \<^verbatim>\<open>record_transaction\<close> reaches the metadata (after \<^verbatim>\<open>ensure_period\<close>
  and the second run of the upgrader) and when it reaches the stock (after the metadata
  of the item is written); the signed quantity of a transaction, negative for type
  \<open>out\<close> and positive for every other type, as the \<^verbatim>\<open>else\<close> branch has it; and the test
  that an outbound quantity exceeds what is available.
\<close>

definition prepared :: "pydict \<Rightarrow> transaction \<Rightarrow> string \<Rightarrow> pydict" where
  "prepared d t now = upgraded_metadata (snd (ensure_period d (period t) now))"

definition bound :: "pydict \<Rightarrow> transaction \<Rightarrow> string \<Rightarrow> pydict" where
  "bound d t now = snd (bind_metadata (prepared d t now) t)"

definition signed_quantity :: "transaction \<Rightarrow> int" where
  "signed_quantity t = (if tx_type t = ''out'' then - tx_quantity t else tx_quantity t)"

definition short_of_stock :: "pydict \<Rightarrow> transaction \<Rightarrow> bool" where
  "short_of_stock d t =
     (tx_type t = ''out'' \<and>
      stock_quantity d (tx_item t) (option_key (tx_option t)) (tx_location t) < tx_quantity t)"

section \<open>The two business errors\<close>

text \<open>Whether a call ended with the artist-mismatch or the insufficient-stock error.\<close>

fun is_artist_mismatch :: "error option \<Rightarrow> bool" where
  "is_artist_mismatch (Some (ArtistMismatch item artist)) = True"
| "is_artist_mismatch e = False"

fun is_insufficient_stock :: "error option \<Rightarrow> bool" where
  "is_insufficient_stock (Some (InsufficientStock item location available requested)) = True"
| "is_insufficient_stock e = False"

section \<open>The invariant of the ledger\<close>

text \<open>
  A document is consistent when it has the current schema, \<^verbatim>\<open>summarize\<close> of its history
  returns its stock map, and the quantity of every key (0 when absent) is the net
  quantity of the history entries of that key.
\<close>

definition consistent :: "pydict \<Rightarrow> bool" where
  "consistent d =
     (current_schema d \<and>
      summarize (history_list d) = Inr (stock_list d) \<and>
      (\<forall>i ok l. quantity_in (stock_list d) i ok l = net_quantity (history_list d) i ok l))"

section \<open>The reconciliation pull\<close>

text \<open>
  \<^verbatim>\<open>_build_stock_snapshot\<close> of \<^verbatim>\<open>inventory_gui.py\<close> flattens the stock of a document into a
  dict from \<^verbatim>\<open>(category, item, option, location)\<close> to the quantity, the artist and the
  category, the last two read from the metadata of the item.
\<close>

type_synonym snapshot_key = "string \<times> string \<times> string \<times> string"

record snapshot_info =
  si_qty :: int
  si_artist :: json
  si_category :: string

type_synonym snapshot = "(snapshot_key \<times> snapshot_info) list"

text \<open>\<^verbatim>\<open>int(qty)\<close>; the parse of a string is where the model stops.\<close>

fun py_int :: "json \<Rightarrow> error + int" where
  "py_int (JInt n) = Inr n"
| "py_int (JBool b) = Inr (if b then 1 else 0)"
| "py_int (JStr s) = Inl Unmodelled"
| "py_int v = Inl TypeError"

text \<open>
  \<^verbatim>\<open>normalize_category\<close> called on a value of the document: a value that is truthy and not a
  string has no \<^verbatim>\<open>strip\<close> method.
\<close>

definition normalize_category_value :: "json \<Rightarrow> error + string" where
  "normalize_category_value v =
     (if \<not> truthy v then Inr ''album''
      else case v of JStr s \<Rightarrow> Inr (normalize_category s) | _ \<Rightarrow> Inl AttributeError)"

text \<open>\<^verbatim>\<open>metadata.get(item, {}).get(field, default)\<close>\<close>

definition item_field :: "json \<Rightarrow> string \<Rightarrow> string \<Rightarrow> json \<Rightarrow> error + json" where
  "item_field metadata item field dflt =
     (case metadata of
        JDict m \<Rightarrow>
          (case map_of m item of
             None \<Rightarrow> Inr dflt
           | Some (JDict info) \<Rightarrow> Inr (get_or info field dflt)
           | Some v \<Rightarrow> Inl AttributeError)
      | _ \<Rightarrow> Inl AttributeError)"

text \<open>The three nested loops of \<^verbatim>\<open>_build_stock_snapshot\<close>, innermost first.\<close>

fun snapshot_locations ::
  "string \<Rightarrow> json \<Rightarrow> string \<Rightarrow> string \<Rightarrow> pydict \<Rightarrow> snapshot \<Rightarrow> error + snapshot" where
  "snapshot_locations category artist item opt [] acc = Inr acc"
| "snapshot_locations category artist item opt ((location, qty) # rest) acc =
     (case py_int qty of
        Inl e \<Rightarrow> Inl e
      | Inr n \<Rightarrow>
          snapshot_locations category artist item opt rest
            (AList.update
               (category, item, (if opt \<noteq> [] then opt else []), (if location \<noteq> [] then location else []))
               \<lparr>si_qty = n, si_artist = artist, si_category = category\<rparr> acc))"

fun snapshot_options ::
  "string \<Rightarrow> json \<Rightarrow> string \<Rightarrow> pydict \<Rightarrow> snapshot \<Rightarrow> error + snapshot" where
  "snapshot_options category artist item [] acc = Inr acc"
| "snapshot_options category artist item ((opt, locations) # rest) acc =
     (case locations of
        JDict ls \<Rightarrow>
          (case snapshot_locations category artist item opt ls acc of
             Inl e \<Rightarrow> Inl e
           | Inr acc' \<Rightarrow> snapshot_options category artist item rest acc')
      | _ \<Rightarrow> Inl AttributeError)"

fun snapshot_items :: "json \<Rightarrow> pydict \<Rightarrow> snapshot \<Rightarrow> error + snapshot" where
  "snapshot_items metadata [] acc = Inr acc"
| "snapshot_items metadata ((item, options) # rest) acc =
     or_else (item_field metadata item ''artist'' (JStr [])) (\<lambda>artist.
     or_else (item_field metadata item ''category'' (JStr ''album'')) (\<lambda>category_raw.
     or_else (normalize_category_value category_raw) (\<lambda>category.
       case options of
         JDict os \<Rightarrow>
           (case snapshot_options category artist item os acc of
              Inl e \<Rightarrow> Inl e
            | Inr acc' \<Rightarrow> snapshot_items metadata rest acc')
       | _ \<Rightarrow> Inl AttributeError)))"

definition build_stock_snapshot :: "pydict \<Rightarrow> error + snapshot" where
  "build_stock_snapshot data =
     (let metadata = get_or data ''item_metadata'' (JDict []);
          stock = get_or data ''stock'' JNull
      in if \<not> truthy stock then Inr []
         else case stock of JDict s \<Rightarrow> snapshot_items metadata s [] | _ \<Rightarrow> Inl AttributeError)"

text \<open>
  The loop that copies every non-empty artist of the external metadata into the local
  metadata: \<^verbatim>\<open>self.data.setdefault("item_metadata", {}).setdefault(item, {})["artist"] = ...\<close>
\<close>

definition set_item_artist :: "pydict \<Rightarrow> string \<Rightarrow> json \<Rightarrow> outcome" where
  "set_item_artist data0 item a =
     (let data = setdefault ''item_metadata'' (JDict []) data0 in
      case map_of data ''item_metadata'' of
        Some (JDict metadata0) \<Rightarrow>
          (let metadata = setdefault item (JDict []) metadata0 in
           case map_of metadata item of
             Some (JDict info) \<Rightarrow>
               (None, AList.update ''item_metadata''
                        (JDict (AList.update item (JDict (AList.update ''artist'' a info)) metadata)) data)
           | _ \<Rightarrow> (Some TypeError, AList.update ''item_metadata'' (JDict metadata) data))
      | _ \<Rightarrow> (Some AttributeError, data))"

fun merge_artists :: "pydict \<Rightarrow> pydict \<Rightarrow> outcome" where
  "merge_artists [] data = (None, data)"
| "merge_artists ((item, meta) # rest) data =
     (case meta of
        JDict m \<Rightarrow>
          (if truthy (get_or m ''artist'' JNull)
           then (case set_item_artist data item (get_or m ''artist'' JNull) of
                   (None, data') \<Rightarrow> merge_artists rest data'
                 | (Some e, data') \<Rightarrow> (Some e, data'))
           else merge_artists rest data)
      | _ \<Rightarrow> (Some AttributeError, data))"

text \<open>
  The body of the loop over the sorted keys. A side that misses the key counts as
  quantity 0, no artist and category \<open>album\<close>. The artist of the synthesized transaction is
  the external one, else the local one of the snapshot, else
  \<^verbatim>\<open>determine_artist(self.data, item)\<close>: that call passes two arguments to a function of
  three required parameters, so Python raises \<^verbatim>\<open>TypeError\<close> before the function runs. The
  call stands outside the \<^verbatim>\<open>try\<close>, so the exception leaves \<^verbatim>\<open>sync_google_drive\<close>; an
  exception of \<^verbatim>\<open>record_transaction\<close> is caught, reported in a message box, and ends the
  pull. \<open>clock\<close> is the clock reading \<^verbatim>\<open>ensure_period\<close> takes (only the first recorded
  transaction of a pull can start a period).
\<close>

definition default_info :: snapshot_info where
  "default_info = \<lparr>si_qty = 0, si_artist = JStr [], si_category = ''album''\<rparr>"

datatype sync_end = Completed | Reported error | Raised error

definition choose_artist :: "snapshot_info \<Rightarrow> snapshot_info \<Rightarrow> error + string" where
  "choose_artist google_info local_info =
     (if truthy (si_artist google_info)
      then (case si_artist google_info of JStr s \<Rightarrow> Inr s | _ \<Rightarrow> Inl Unmodelled)
      else if truthy (si_artist local_info)
      then (case si_artist local_info of JStr s \<Rightarrow> Inr s | _ \<Rightarrow> Inl Unmodelled)
      else Inl TypeError)"

definition choose_category :: "snapshot_info \<Rightarrow> snapshot_info \<Rightarrow> string" where
  "choose_category google_info local_info =
     normalize_category
       (if si_category google_info \<noteq> [] then si_category google_info
        else if si_category local_info \<noteq> [] then si_category local_info
        else ''album'')"

definition correction_text :: string where
  "correction_text = ''Google Drive '' @ [CHR 0xEC, CHR 0x88, CHR 0x98, CHR 0xEC, CHR 0xA0, CHR 0x95]"

definition correction ::
  "snapshot_key \<Rightarrow> int \<Rightarrow> string \<Rightarrow> string \<Rightarrow> datetime \<Rightarrow> string \<Rightarrow> transaction" where
  "correction key diff artist category_value now actor =
     (case key of (category, item, opt, location) \<Rightarrow>
        \<lparr>tx_type = (if diff > 0 then ''in'' else ''out''), tx_artist = artist, tx_item = item,
         tx_option = opt, tx_location = location, tx_quantity = \<bar>diff\<bar>, tx_timestamp = now,
         tx_category = category_value, tx_actor = actor, tx_description = correction_text,
         tx_event = False, tx_event_id = [], tx_event_open = False\<rparr>)"

fun sync_keys ::
  "snapshot \<Rightarrow> snapshot \<Rightarrow> datetime \<Rightarrow> string \<Rightarrow> string \<Rightarrow> snapshot_key list \<Rightarrow> pydict \<Rightarrow> nat
     \<Rightarrow> sync_end \<times> pydict \<times> nat" where
  "sync_keys local_snapshot google_snapshot now actor clock [] data changes = (Completed, data, changes)"
| "sync_keys local_snapshot google_snapshot now actor clock (key # keys) data changes =
     (let local_info = (case map_of local_snapshot key of None \<Rightarrow> default_info | Some i \<Rightarrow> i);
          google_info = (case map_of google_snapshot key of None \<Rightarrow> default_info | Some i \<Rightarrow> i);
          diff = si_qty google_info - si_qty local_info
      in if diff = 0 then sync_keys local_snapshot google_snapshot now actor clock keys data changes
         else
           (case choose_artist google_info local_info of
              Inl e \<Rightarrow> (Raised e, data, changes)
            | Inr artist \<Rightarrow>
                (case record_transaction data
                        (correction key diff artist (choose_category google_info local_info) now actor)
                        True clock of
                   (Some e, data') \<Rightarrow> (Reported e, data', changes)
                 | (None, data') \<Rightarrow>
                     sync_keys local_snapshot google_snapshot now actor clock keys data' (Suc changes))))"

text \<open>
  \<^verbatim>\<open>sync_google_drive\<close> from the point where the external document has been read: the two
  snapshots, the merge of the artists, the sorted union of the keys, the loop. The
  result is how the pull ended, the document it left and the number of transactions it
  recorded.
\<close>

definition sync_google_drive ::
  "pydict \<Rightarrow> pydict \<Rightarrow> datetime \<Rightarrow> string \<Rightarrow> string \<Rightarrow> sync_end \<times> pydict \<times> nat" where
  "sync_google_drive data google_data now actor clock =
     (if google_data = [] then (Completed, data, 0)
      else
        case build_stock_snapshot data of
          Inl e \<Rightarrow> (Raised e, data, 0)
        | Inr local_snapshot \<Rightarrow>
            (case build_stock_snapshot google_data of
               Inl e \<Rightarrow> (Raised e, data, 0)
             | Inr google_snapshot \<Rightarrow>
                 (case (case get_or google_data ''item_metadata'' (JDict []) of
                          JDict gm \<Rightarrow> merge_artists gm data
                        | _ \<Rightarrow> (Some AttributeError, data)) of
                    (Some e, data') \<Rightarrow> (Raised e, data', 0)
                  | (None, data') \<Rightarrow>
                      sync_keys local_snapshot google_snapshot now actor clock
                        (sort (remdups (map fst local_snapshot @ map fst google_snapshot)))
                        data' 0)))"

section \<open>Concrete documents and transactions\<close>

text \<open>
  A document written before the stock field existed: one history entry, without the
  event and category fields, and no \<^verbatim>\<open>stock\<close>.
\<close>

definition legacy_document :: pydict where
  "legacy_document =
     [(''history'',
       JList [JDict [(''type'', JStr ''in''), (''artist'', JStr ''ArtistA''),
                     (''item'', JStr ''Album X''), (''location'', JStr ''Seoul''),
                     (''quantity'', JInt 10)]])]"

text \<open>
  A document in its March 2024 period: six units of one album in Seoul, bound to
  \<open>ArtistA\<close>.
\<close>

definition march_document :: pydict where
  "march_document =
     [(''current_period'', JStr ''2024-03''),
      (''periods'', JDict [(''2024-03'', JDict [(''opening_stock'', JDict []),
                                                (''created_at'', JStr ''2024-03-05T10:00:00'')])]),
      (''stock'', JDict [(''Album X'', JDict [('''', JDict [(''Seoul'', JInt 6)])])]),
      (''history'', JList []),
      (''item_metadata'', JDict [(''Album X'', JDict [(''artist'', JStr ''ArtistA''),
                                                      (''category'', JStr ''album''),
                                                      (''last_audit'', JDict [])])])]"

text \<open>
  Two timestamps, and an outbound movement of the album of the March document out of Seoul,
  for a given artist and quantity.
\<close>

definition march_9 :: datetime where
  "march_9 = \<lparr>dt_year = 2024, dt_month = 3, dt_day = 9, dt_hour = 9, dt_minute = 0,
               dt_second = 0, dt_microsecond = 0\<rparr>"

definition april_2 :: datetime where
  "april_2 = \<lparr>dt_year = 2024, dt_month = 4, dt_day = 2, dt_hour = 14, dt_minute = 30,
               dt_second = 0, dt_microsecond = 0\<rparr>"

definition out_of_seoul :: "string \<Rightarrow> int \<Rightarrow> datetime \<Rightarrow> transaction" where
  "out_of_seoul artist n ts =
     \<lparr>tx_type = ''out'', tx_artist = artist, tx_item = ''Album X'', tx_option = '''',
      tx_location = ''Seoul'', tx_quantity = n, tx_timestamp = ts, tx_category = ''album'',
      tx_actor = '''', tx_description = '''', tx_event = False, tx_event_id = '''',
      tx_event_open = False\<rparr>"

text \<open>The inbound movement of the same album into Seoul.\<close>

definition into_seoul :: "string \<Rightarrow> int \<Rightarrow> datetime \<Rightarrow> transaction" where
  "into_seoul artist n ts = (out_of_seoul artist n ts)\<lparr>tx_type := ''in''\<rparr>"

text \<open>
  A document read from the sheet: nine units of the album in Seoul, and five posters, in a
  row whose artist cell is empty.
\<close>

definition sheet_document :: pydict where
  "sheet_document =
     [(''current_period'', JNull),
      (''periods'', JDict []),
      (''stock'', JDict [(''Album X'', JDict [('''', JDict [(''Seoul'', JInt 9)])]),
                         (''Poster'', JDict [('''', JDict [(''Seoul'', JInt 5)])])]),
      (''history'', JList []),
      (''item_metadata'', JDict [(''Album X'', JDict [(''artist'', JStr ''ArtistA''),
                                                      (''category'', JStr ''album'')]),
                                 (''Poster'', JDict [(''category'', JStr ''album'')])]),
      (''last_updated'', JNull)]"

text \<open>The sheet of Scenario E: nine units of the album in Seoul and nothing else.\<close>

definition album_sheet :: pydict where
  "album_sheet =
     [(''current_period'', JNull),
      (''periods'', JDict []),
      (''stock'', JDict [(''Album X'', JDict [('''', JDict [(''Seoul'', JInt 9)])])]),
      (''history'', JList []),
      (''item_metadata'', JDict [(''Album X'', JDict [(''artist'', JStr ''ArtistA''),
                                                      (''category'', JStr ''album'')])]),
      (''last_updated'', JNull)]"

text \<open>
  An outbound movement of ten signed copies in April, its category typed as \<open>MERCH\<close> after an
  ideographic space (U+3000) and before a blank.
\<close>

definition signed_merch_out :: transaction where
  "signed_merch_out =
     (out_of_seoul ''ArtistA'' 10 april_2)
       \<lparr>tx_option := ''signed'', tx_category := [CHR 0xE3, CHR 0x80, CHR 0x80] @ ''MERCH ''\<rparr>"

section \<open>The schema upgrader: the early return\<close>

text \<open>
  Claim C8 (completeness and totality of the upgrader). The claim says that after one run
  every history entry has the fields \<^verbatim>\<open>event\<close>, \<^verbatim>\<open>event_id\<close>, \<^verbatim>\<open>event_open\<close> and \<^verbatim>\<open>category\<close>,
  also when the stock field is absent. On the legacy document the run resets the stock
  and returns: the document it leaves is the input with an empty stock appended, and its
  history entry still has none of the four fields.
\<close>

theorem upgrader_returns_before_history:
  "ensure_new_schema legacy_document = (None, legacy_document @ [(''stock'', JDict [])]) \<and>
   \<not> is_history (get_or (snd (ensure_new_schema legacy_document)) ''history'' (JList []))"
  by code_simp

text \<open>
  Claim C5 (idempotence of the upgrader). The claim says that a second run changes
  nothing. On the legacy document both runs return, and the second run changes the
  document the first one left: it is the second run that fills in the history entry and
  creates \<^verbatim>\<open>item_metadata\<close>.
\<close>

theorem upgrader_second_run_differs:
  "fst (ensure_new_schema legacy_document) = None \<and>
   fst (ensure_new_schema (snd (ensure_new_schema legacy_document))) = None \<and>
   snd (ensure_new_schema (snd (ensure_new_schema legacy_document))) \<noteq>
     snd (ensure_new_schema legacy_document) \<and>
   is_history (get_or (snd (ensure_new_schema (snd (ensure_new_schema legacy_document))))
                 ''history'' (JList []))"
  by code_simp

section \<open>The upgrader on a document of the current schema\<close>

lemma and_then_simps [simp]:
  "and_then (None, d) f = f d"
  "and_then (Some e, d) f = (Some e, d)"
  by (simp_all add: and_then_def)

lemma option_map_not_all_int:
  "list_all (\<lambda>kv. is_location_map (snd kv)) m \<Longrightarrow> m \<noteq> [] \<Longrightarrow> \<not> all_int_values m"
  by (cases m; cases "snd (hd m)") (auto simp: all_int_values_def)

lemma upgrade_stock_value_id: "is_option_map v \<Longrightarrow> upgrade_stock_value v = v"
  by (cases v) (auto simp: upgrade_stock_value_def option_map_not_all_int)

lemma upgrade_stock_loop_id:
  "list_all (\<lambda>kv. is_option_map (snd kv)) s \<Longrightarrow>
   map (\<lambda>kv. (fst kv, upgrade_stock_value (snd kv))) s = s"
  by (induction s) (auto simp: upgrade_stock_value_id)

lemma upgrade_opening_value_id: "is_option_map v \<Longrightarrow> upgrade_opening_value v = (None, v)"
  by (cases v) (auto simp: upgrade_opening_value_def option_map_not_all_int)

lemma upgrade_opening_loop_id:
  "list_all (\<lambda>kv. is_option_map (snd kv)) s \<Longrightarrow> for_values upgrade_opening_value s = (None, s)"
  by (induction s) (auto simp: upgrade_opening_value_id)

lemma upgrade_period_info_id: "is_period_info v \<Longrightarrow> upgrade_period_info v = (None, v)"
proof (cases v)
  case (JDict p)
  assume "is_period_info v"
  with JDict obtain s where s: "map_of p ''opening_stock'' = Some s" "is_stock_map s"
    by (auto split: option.splits)
  then obtain st where st: "s = JDict st" "list_all (\<lambda>kv. is_option_map (snd kv)) st"
    by (cases s) auto
  show ?thesis
    using JDict s st by (simp add: upgrade_period_info_def upgrade_opening_loop_id AList.update_triv)
qed auto

lemma upgrade_periods_loop_id:
  "list_all (\<lambda>kv. is_period_info (snd kv)) ps \<Longrightarrow> for_values upgrade_period_info ps = (None, ps)"
  by (induction ps) (auto simp: upgrade_period_info_id)

lemma upgrade_history_entry_id: "is_history_entry e \<Longrightarrow> upgrade_history_entry e = (None, e)"
  by (cases e) (auto simp: upgrade_history_entry_def setdefault_def)

lemma upgrade_history_loop_id:
  "list_all is_history_entry h \<Longrightarrow> for_each upgrade_history_entry h = (None, h)"
  by (induction h) (auto simp: upgrade_history_entry_id)

lemma upgrade_periods_id:
  "is_periods (get_or d ''periods'' (JDict [])) \<Longrightarrow> upgrade_periods d = (None, d)"
  by (cases "map_of d ''periods''"; cases "the (map_of d ''periods'')")
     (auto simp: upgrade_periods_def get_or_def upgrade_periods_loop_id AList.update_triv)

lemma upgrade_history_id:
  "is_history (get_or d ''history'' (JList [])) \<Longrightarrow> upgrade_history d = (None, d)"
  by (cases "map_of d ''history''"; cases "the (map_of d ''history'')")
     (auto simp: upgrade_history_def get_or_def upgrade_history_loop_id AList.update_triv)

lemma get_or_update: "get_or (AList.update k v d) k' dflt = (if k' = k then v else get_or d k' dflt)"
  by (simp add: get_or_def AList.update_conv')

lemma get_or_append_new:
  "get_or (d @ [(k, v)]) k' dflt = (if k' = k \<and> map_of d k = None then v else get_or d k' dflt)"
  by (auto simp: get_or_def map_add_def split: option.splits)

lemma ensure_new_schema_current:
  assumes "current_schema d"
  shows "ensure_new_schema d = (None, upgraded_metadata d)"
proof -
  from assms obtain s where s: "map_of d ''stock'' = Some (JDict s)"
      "list_all (\<lambda>kv. is_option_map (snd kv)) s"
    by (cases "get_or d ''stock'' JNull") (auto simp: current_schema_def get_or_def)
  have P: "is_periods (get_or d ''periods'' (JDict []))"
    and H: "is_history (get_or d ''history'' (JList []))"
    and M: "is_metadata (get_or d ''item_metadata'' (JDict []))"
    using assms by (simp_all add: current_schema_def)
  have stock_id: "AList.update ''stock'' (JDict (map (\<lambda>kv. (fst kv, upgrade_stock_value (snd kv))) s)) d = d"
    using s by (simp add: upgrade_stock_loop_id AList.update_triv)
  show ?thesis
  proof (cases "map_of d ''item_metadata''")
    case None
    let ?d = "d @ [(''item_metadata'', JDict [])]"
    have 1: "upgrade_metadata d = (None, ?d)" using None by (simp add: upgrade_metadata_def)
    have 2: "upgrade_periods ?d = (None, ?d)"
      using P by (intro upgrade_periods_id) (simp add: get_or_append_new)
    have 3: "upgrade_history ?d = (None, ?d)"
      using H by (intro upgrade_history_id) (simp add: get_or_append_new)
    have 4: "upgrade_categories ?d = (None, ?d)"
      using None by (simp add: upgrade_categories_def map_add_def AList.update_triv)
    show ?thesis
      using s None by (simp add: ensure_new_schema_def stock_id 1 2 3 4 upgraded_metadata_def)
  next
    case (Some mv)
    with M obtain m where m: "mv = JDict m" by (cases mv) (auto simp: get_or_def)
    let ?m1 = "map (\<lambda>kv. (fst kv, ensure_last_audit (snd kv))) m"
    let ?d = "AList.update ''item_metadata'' (JDict ?m1) d"
    have 1: "upgrade_metadata d = (None, ?d)" using Some m by (simp add: upgrade_metadata_def)
    have 2: "upgrade_periods ?d = (None, ?d)"
      using P by (intro upgrade_periods_id) (simp add: get_or_update)
    have 3: "upgrade_history ?d = (None, ?d)"
      using H by (intro upgrade_history_id) (simp add: get_or_update)
    have 4: "upgrade_categories ?d = (None, upgraded_metadata d)"
      using Some m by (simp add: upgrade_categories_def AList.update_conv' upgraded_metadata_def upgrade_info_def comp_def)
    show ?thesis
      using s by (simp add: ensure_new_schema_def stock_id 1 2 3 4)
  qed
qed


lemma map_of_map_values:
  "map_of (map (\<lambda>kv. (fst kv, f (snd kv))) m) k = map_option f (map_of m k)"
  by (induction m) auto

lemma map_of_upgraded_metadata:
  "k \<noteq> ''item_metadata'' \<Longrightarrow> map_of (upgraded_metadata d) k = map_of d k"
  by (auto simp: upgraded_metadata_def AList.update_conv' map_add_def split: option.splits json.splits)

lemma get_or_upgraded_metadata:
  "k \<noteq> ''item_metadata'' \<Longrightarrow> get_or (upgraded_metadata d) k dflt = get_or d k dflt"
  by (simp add: get_or_def map_of_upgraded_metadata)

lemma metadata_upgraded_metadata:
  "get_or d ''item_metadata'' (JDict []) = JDict m \<Longrightarrow>
   map_of (upgraded_metadata d) ''item_metadata'' =
     Some (JDict (map (\<lambda>kv. (fst kv, upgrade_info (snd kv))) m))"
  by (auto simp: upgraded_metadata_def get_or_def AList.update_conv' map_add_def split: option.splits)

lemma upgrade_info_dict:
  "\<exists>info'. upgrade_info (JDict info) = JDict info' \<and>
      map_of info' ''artist'' = map_of info ''artist'' \<and>
      map_of info' ''option'' = map_of info ''option''"
  by (auto simp: upgrade_info_def ensure_category_def ensure_last_audit_def AList.update_conv' split: option.splits json.splits)

lemma is_metadata_upgraded:
  "list_all (\<lambda>kv. isinstance_dict (snd kv)) m \<Longrightarrow>
   list_all (\<lambda>kv. isinstance_dict (snd kv)) (map (\<lambda>kv. (fst kv, upgrade_info (snd kv))) m)"
proof (induction m)
  case (Cons kv m)
  then obtain info where "snd kv = JDict info" by (cases "snd kv") auto
  with Cons show ?case using upgrade_info_dict[of info] by auto
qed simp

lemma current_schema_upgraded_metadata:
  assumes "current_schema d"
  shows "current_schema (upgraded_metadata d)"
proof -
  from assms obtain m where m: "get_or d ''item_metadata'' (JDict []) = JDict m"
      "list_all (\<lambda>kv. isinstance_dict (snd kv)) m"
    by (cases "get_or d ''item_metadata'' (JDict [])") (auto simp: current_schema_def)
  have "is_metadata (get_or (upgraded_metadata d) ''item_metadata'' (JDict []))"
    using metadata_upgraded_metadata[OF m(1)] is_metadata_upgraded[OF m(2)] by (simp add: get_or_def)
  then show ?thesis
    using assms by (simp add: current_schema_def get_or_upgraded_metadata map_of_upgraded_metadata)
qed

lemma recorded_artist_upgraded_metadata:
  assumes "current_schema d"
  shows "recorded_artist (upgraded_metadata d) item = recorded_artist d item"
proof -
  from assms obtain m where m: "get_or d ''item_metadata'' (JDict []) = JDict m"
      "list_all (\<lambda>kv. isinstance_dict (snd kv)) m"
    by (cases "get_or d ''item_metadata'' (JDict [])") (auto simp: current_schema_def)
  show ?thesis
  proof (cases "map_of m item")
    case None
    then show ?thesis
      using m(1) metadata_upgraded_metadata[OF m(1)]
      by (simp add: recorded_artist_def get_or_def map_of_map_values)
  next
    case (Some v)
    then have "(item, v) \<in> set m" by (rule map_of_SomeD)
    with m(2) obtain info where info: "v = JDict info"
      by (cases v) (auto simp: list_all_iff)
    obtain info' where "upgrade_info (JDict info) = JDict info'"
      "map_of info' ''artist'' = map_of info ''artist''"
      using upgrade_info_dict[of info] by blast
    then show ?thesis
      using m(1) metadata_upgraded_metadata[OF m(1)] Some info
      by (simp add: recorded_artist_def get_or_def map_of_map_values)
  qed
qed

section \<open>Starting a period on a document of the current schema\<close>

lemma map_of_setdefault:
  "map_of (setdefault k v d) k' = (if k' = k \<and> map_of d k = None then Some v else map_of d k')"
  by (auto simp: setdefault_def map_add_def split: option.splits)

lemma get_or_setdefault:
  "get_or (setdefault k v d) k' dflt = (if k' = k \<and> map_of d k = None then v else get_or d k' dflt)"
  by (simp add: get_or_def map_of_setdefault)

lemma get_or_setdefault_same [simp]: "get_or (setdefault k v d) k v = get_or d k v"
  by (simp add: get_or_def map_of_setdefault split: option.splits)

lemma ensure_period_current:
  assumes "current_schema d"
  shows "ensure_period d p now =
           (None, if has_period d p \<or> earlier_than_current d p \<or> is_current d p
                  then setdefault ''periods'' (JDict []) (upgraded_metadata d)
                  else start_period (setdefault ''periods'' (JDict []) (upgraded_metadata d))
                         (periods_list d) p now)"
proof -
  let ?d1 = "upgraded_metadata d"
  let ?data = "setdefault ''periods'' (JDict []) ?d1"
  from assms obtain ps where ps: "get_or d ''periods'' (JDict []) = JDict ps"
    by (cases "get_or d ''periods'' (JDict [])") (auto simp: current_schema_def)
  have cur: "is_current_period (get_or d ''current_period'' JNull)"
    using assms by (simp add: current_schema_def)
  have c1: "(case map_of ?d1 ''current_period'' of None \<Rightarrow> JNull | Some c \<Rightarrow> c) = get_or d ''current_period'' JNull"
    by (simp add: map_of_upgraded_metadata get_or_def)
  have p1: "(case map_of ?data ''periods'' of None \<Rightarrow> JNull | Some ps \<Rightarrow> ps) = JDict ps"
    using ps by (auto simp: map_of_setdefault map_of_upgraded_metadata get_or_def split: option.splits)
  show ?thesis
    unfolding ensure_period_def ensure_new_schema_current[OF assms] and_then_simps Let_def c1 p1
    using cur ps
    by (cases "get_or d ''current_period'' JNull"; cases "map_of ps p")
       (auto simp: has_period_def earlier_than_current_def is_current_def periods_list_def
             split: bool.splits)
qed

lemma map_of_start_period:
  "map_of (start_period data ps p now) k =
     (if k = ''current_period'' then Some (JStr p)
      else if k = ''periods'' then
        Some (JDict (AList.update p
                (JDict [(''opening_stock'', get_or data ''stock'' (JDict [])), (''created_at'', JStr now)]) ps))
      else map_of data k)"
  by (simp add: start_period_def AList.update_conv' get_or_def)

lemma list_all_update:
  "list_all P al \<Longrightarrow> P (k, v) \<Longrightarrow> list_all P (AList.update k v al)"
  by (induction al) auto

lemma current_schema_cong:
  assumes "map_of d' ''stock'' = map_of d ''stock''"
    and "get_or d' ''item_metadata'' (JDict []) = get_or d ''item_metadata'' (JDict [])"
    and "get_or d' ''periods'' (JDict []) = get_or d ''periods'' (JDict [])"
    and "get_or d' ''current_period'' JNull = get_or d ''current_period'' JNull"
    and "get_or d' ''history'' (JList []) = get_or d ''history'' (JList [])"
  shows "current_schema d' = current_schema d"
  using assms by (simp add: current_schema_def get_or_def)

lemma current_schema_setdefault_periods:
  "current_schema d \<Longrightarrow> current_schema (setdefault ''periods'' (JDict []) d)"
  by (simp add: current_schema_def get_or_setdefault map_of_setdefault)

lemma current_schema_start_period:
  assumes "current_schema data" and "get_or data ''periods'' (JDict []) = JDict ps"
  shows "current_schema (start_period data ps p now)"
proof -
  have st: "is_stock_map (get_or data ''stock'' (JDict []))"
    using assms(1) by (auto simp: current_schema_def get_or_def)
  have "list_all (\<lambda>kv. is_period_info (snd kv)) ps"
    using assms by (simp add: current_schema_def)
  then have "list_all (\<lambda>kv. is_period_info (snd kv))
      (AList.update p (JDict [(''opening_stock'', get_or data ''stock'' (JDict [])), (''created_at'', JStr now)]) ps)"
    using st by (intro list_all_update) simp_all
  then show ?thesis
    using assms(1) by (simp add: current_schema_def get_or_def map_of_start_period)
qed

lemma periods_list_eq:
  "current_schema d \<Longrightarrow> get_or d ''periods'' (JDict []) = JDict (periods_list d)"
  by (cases "get_or d ''periods'' (JDict [])") (auto simp: current_schema_def periods_list_def)

lemma current_schema_ensure_period:
  assumes "current_schema d"
  shows "current_schema (snd (ensure_period d p now))"
proof -
  let ?data = "setdefault ''periods'' (JDict []) (upgraded_metadata d)"
  have 1: "current_schema ?data"
    using assms by (intro current_schema_setdefault_periods current_schema_upgraded_metadata)
  have 2: "get_or ?data ''periods'' (JDict []) = JDict (periods_list d)"
    using periods_list_eq[OF assms] by (simp add: get_or_upgraded_metadata)
  show ?thesis
    using 1 current_schema_start_period[OF 1 2]
    by (simp add: ensure_period_current[OF assms])
qed

lemma ensure_period_frame:
  assumes "current_schema d"
  shows "map_of (snd (ensure_period d p now)) ''stock'' = map_of d ''stock''"
    and "map_of (snd (ensure_period d p now)) ''history'' = map_of d ''history''"
    and "get_or (snd (ensure_period d p now)) ''item_metadata'' (JDict []) =
         get_or (upgraded_metadata d) ''item_metadata'' (JDict [])"
  by (simp_all add: ensure_period_current[OF assms] map_of_start_period map_of_setdefault
        map_of_upgraded_metadata get_or_def)

text \<open>
  Claim C4 (the cases in which \<^verbatim>\<open>ensure_period\<close> does nothing). On a document of the
  current schema, when the period key already has a record, or the current period is set
  and the key is strictly earlier, or the key is the current period, \<^verbatim>\<open>ensure_period\<close>
  returns and leaves the periods mapping and the current period as they were.
\<close>

theorem ensure_period_noop:
  assumes "current_schema d"
    and "has_period d p \<or> earlier_than_current d p \<or> is_current d p"
  shows "fst (ensure_period d p now) = None \<and>
         get_or (snd (ensure_period d p now)) ''periods'' (JDict []) = get_or d ''periods'' (JDict []) \<and>
         map_of (snd (ensure_period d p now)) ''current_period'' = map_of d ''current_period''"
  using assms(2)
  by (simp add: ensure_period_current[OF assms(1)] get_or_upgraded_metadata map_of_setdefault
        map_of_upgraded_metadata)

theorem ensure_period_noop_witness:
  "current_schema march_document \<and> earlier_than_current march_document ''2024-02'' \<and>
   fst (ensure_period march_document ''2024-02'' ''2024-03-09T09:00:00'') = None \<and>
   get_or (snd (ensure_period march_document ''2024-02'' ''2024-03-09T09:00:00'')) ''periods'' (JDict [])
     = get_or march_document ''periods'' (JDict []) \<and>
   map_of (snd (ensure_period march_document ''2024-02'' ''2024-03-09T09:00:00'')) ''current_period''
     = Some (JStr ''2024-03'')"
proof -
  have h1: "current_schema march_document" by code_simp
  have h2: "earlier_than_current march_document ''2024-02''" by code_simp
  have h3: "map_of march_document ''current_period'' = Some (JStr ''2024-03'')" by code_simp
  from h2 have h4: "has_period march_document ''2024-02'' \<or> earlier_than_current march_document ''2024-02''
      \<or> is_current march_document ''2024-02''" by simp
  show ?thesis
    using h1 h2 h3 ensure_period_noop[OF h1 h4, of "''2024-03-09T09:00:00''"] by simp
qed

section \<open>One quantity of a stock map\<close>

lemma update_setdefault: "AList.update k v (setdefault k v0 d) = AList.update k v d"
  by (induction d) (auto simp: setdefault_def split: option.splits)

lemma map_of_setdefault_same:
  "map_of (setdefault k v d) k = Some (case map_of d k of None \<Rightarrow> v | Some x \<Rightarrow> x)"
  by (simp add: map_of_setdefault split: option.splits)

lemma typed_lookup_item:
  "list_all (\<lambda>kv. is_option_map (snd kv)) s \<Longrightarrow> map_of s item = Some v \<Longrightarrow>
   \<exists>om. v = JDict om \<and> list_all (\<lambda>kv. is_location_map (snd kv)) om"
proof -
  assume a: "list_all (\<lambda>kv. is_option_map (snd kv)) s" and "map_of s item = Some v"
  then have "(item, v) \<in> set s" by (simp add: map_of_SomeD)
  with a have "is_option_map v" by (auto simp: list_all_iff)
  then show ?thesis by (cases v) auto
qed

lemma typed_lookup_option:
  "list_all (\<lambda>kv. is_location_map (snd kv)) om \<Longrightarrow> map_of om okey = Some v \<Longrightarrow>
   \<exists>locs. v = JDict locs \<and> list_all (\<lambda>kv. is_quantity (snd kv)) locs"
proof -
  assume a: "list_all (\<lambda>kv. is_location_map (snd kv)) om" and "map_of om okey = Some v"
  then have "(okey, v) \<in> set om" by (simp add: map_of_SomeD)
  with a have "is_location_map v" by (auto simp: list_all_iff)
  then show ?thesis by (cases v) auto
qed

lemma typed_lookup_location:
  "list_all (\<lambda>kv. is_quantity (snd kv)) locs \<Longrightarrow> map_of locs l = Some v \<Longrightarrow> \<exists>n. v = JInt n"
proof -
  assume a: "list_all (\<lambda>kv. is_quantity (snd kv)) locs" and "map_of locs l = Some v"
  then have "(l, v) \<in> set locs" by (simp add: map_of_SomeD)
  with a have "is_quantity v" by (auto simp: list_all_iff)
  then show ?thesis by (cases v) auto
qed

lemma typed_option_map_of:
  "list_all (\<lambda>kv. is_option_map (snd kv)) s \<Longrightarrow>
   list_all (\<lambda>kv. is_location_map (snd kv)) (option_map_of s item)"
  by (cases "map_of s item") (auto simp: option_map_of_def dest: typed_lookup_item)

lemma typed_locations_of:
  "list_all (\<lambda>kv. is_location_map (snd kv)) om \<Longrightarrow>
   list_all (\<lambda>kv. is_quantity (snd kv)) (locations_of om okey)"
  by (cases "map_of om okey") (auto simp: locations_of_def dest: typed_lookup_option)

lemma setdefault_item_lookup:
  "list_all (\<lambda>kv. is_option_map (snd kv)) s \<Longrightarrow>
   map_of (setdefault item (JDict []) s) item = Some (JDict (option_map_of s item))"
  by (cases "map_of s item") (auto simp: map_of_setdefault option_map_of_def dest: typed_lookup_item)

lemma setdefault_option_lookup:
  "list_all (\<lambda>kv. is_location_map (snd kv)) om \<Longrightarrow>
   map_of (setdefault okey (JDict []) om) okey = Some (JDict (locations_of om okey))"
  by (cases "map_of om okey") (auto simp: map_of_setdefault locations_of_def dest: typed_lookup_option)

lemma location_quantity:
  "list_all (\<lambda>kv. is_quantity (snd kv)) locs \<Longrightarrow>
   (case map_of locs l of None \<Rightarrow> JInt 0 | Some q \<Rightarrow> q) =
   JInt (case map_of locs l of Some (JInt n) \<Rightarrow> n | _ \<Rightarrow> 0)"
  by (cases "map_of locs l") (auto dest: typed_lookup_location)

lemma qty_at_lookups:
  "qty_at s item okey l = map_of (locations_of (option_map_of s item) okey) l"
  by (auto simp: qty_at_def locations_of_def option_map_of_def split: option.splits json.splits)

lemma add_to_summary_typed:
  assumes "list_all (\<lambda>kv. is_option_map (snd kv)) s"
  shows "add_to_summary s item okey l q = Inr (put_quantity s item okey l (quantity_in s item okey l + q))"
proof -
  note om = typed_option_map_of[OF assms, of item]
  note locs = typed_locations_of[OF om, of okey]
  show ?thesis
    unfolding add_to_summary_def Let_def
    by (simp add: setdefault_item_lookup[OF assms] setdefault_option_lookup[OF om]
          location_quantity[OF locs] or_else_def put_quantity_def quantity_in_def
          qty_at_lookups update_setdefault)
qed

lemma qty_at_put_quantity:
  "qty_at (put_quantity s item okey l n) i ok' l' =
     (if i = item \<and> ok' = okey \<and> l' = l then Some (JInt n) else qty_at s i ok' l')"
  by (auto simp: qty_at_def put_quantity_def AList.update_conv' locations_of_def option_map_of_def
           split: option.splits json.splits)

lemma typed_put_quantity:
  assumes "list_all (\<lambda>kv. is_option_map (snd kv)) s"
  shows "list_all (\<lambda>kv. is_option_map (snd kv)) (put_quantity s item okey l n)"
proof -
  note om = typed_option_map_of[OF assms, of item]
  note locs = typed_locations_of[OF om, of okey]
  have "list_all (\<lambda>kv. is_quantity (snd kv)) (AList.update l (JInt n) (locations_of (option_map_of s item) okey))"
    using locs by (intro list_all_update) simp_all
  then have "list_all (\<lambda>kv. is_location_map (snd kv))
      (AList.update okey (JDict (AList.update l (JInt n) (locations_of (option_map_of s item) okey)))
         (option_map_of s item))"
    using om by (intro list_all_update) simp_all
  then show ?thesis
    unfolding put_quantity_def using assms by (intro list_all_update) simp_all
qed

section \<open>update_stock on a document of the current schema\<close>

lemma setdefault_present: "map_of d k = Some x \<Longrightarrow> setdefault k v d = d"
  by (simp add: setdefault_def)

lemma stock_list_eq:
  assumes "current_schema d"
  shows "map_of d ''stock'' = Some (JDict (stock_list d))"
    and "list_all (\<lambda>kv. is_option_map (snd kv)) (stock_list d)"
  using assms
  by (cases "map_of d ''stock''"; cases "the (map_of d ''stock'')";
      auto simp: current_schema_def get_or_def stock_list_def)+

lemma stock_at_stock_list: "current_schema d \<Longrightarrow> stock_at d i ok l = qty_at (stock_list d) i ok l"
  by (simp add: stock_at_def stock_list_eq)

lemma stock_quantity_stock_list:
  "current_schema d \<Longrightarrow> stock_quantity d i ok l = quantity_in (stock_list d) i ok l"
  by (simp add: stock_quantity_def quantity_in_def stock_at_stock_list)

lemma update_stock_current:
  assumes "current_schema d"
  shows "update_stock d item opt l q =
           (None, AList.update ''stock''
              (JDict (put_quantity (stock_list d) item (option_key opt) l
                        (quantity_in (stock_list d) item (option_key opt) l + q)))
              (upgraded_metadata d))"
proof -
  note s = stock_list_eq[OF assms]
  note om = typed_option_map_of[OF s(2), of item]
  note locs = typed_locations_of[OF om, of "option_key opt"]
  have 1: "ensure_new_schema (setdefault ''stock'' (JDict []) d) = (None, upgraded_metadata d)"
    using s(1) by (simp add: setdefault_present ensure_new_schema_current[OF assms])
  have 2: "map_of (upgraded_metadata d) ''stock'' = Some (JDict (stock_list d))"
    using s(1) by (simp add: map_of_upgraded_metadata)
  show ?thesis
    unfolding update_stock_def 1 and_then_simps Let_def
    by (simp add: 2 setdefault_item_lookup[OF s(2)] setdefault_option_lookup[OF om]
          location_quantity[OF locs] put_quantity_def quantity_in_def qty_at_lookups
          update_setdefault)
qed

lemma map_of_update_stock:
  assumes "current_schema d"
  shows "map_of (snd (update_stock d item opt l q)) k =
           (if k = ''stock'' then
              Some (JDict (put_quantity (stock_list d) item (option_key opt) l
                             (quantity_in (stock_list d) item (option_key opt) l + q)))
            else map_of (upgraded_metadata d) k)"
  by (simp add: update_stock_current[OF assms] AList.update_conv')

lemma current_schema_update_stock:
  assumes "current_schema d"
  shows "current_schema (snd (update_stock d item opt l q))"
proof -
  have "current_schema (upgraded_metadata d)"
    using assms by (rule current_schema_upgraded_metadata)
  moreover have "list_all (\<lambda>kv. is_option_map (snd kv))
      (put_quantity (stock_list d) item (option_key opt) l (quantity_in (stock_list d) item (option_key opt) l + q))"
    using stock_list_eq(2)[OF assms] by (rule typed_put_quantity)
  ultimately show ?thesis
    by (simp add: current_schema_def get_or_def map_of_update_stock[OF assms])
qed

lemma already_upgraded_fixed:
  "already_upgraded d \<Longrightarrow> upgraded_metadata d = d"
  using ensure_new_schema_current[of d] by (simp add: already_upgraded_def)

text \<open>
  Claim C10 (the frame of \<^verbatim>\<open>update_stock\<close>). On an already-upgraded document
  \<^verbatim>\<open>update_stock\<close> returns for every integer delta, negative results included; afterwards
  \<^verbatim>\<open>stock[item][option][location]\<close> is there and holds its previous value (0 when it was
  absent) plus the delta; every other entry of the stock, the history, the periods, the
  current period and the item metadata are as before.
\<close>

theorem update_stock_frame:
  assumes "already_upgraded d"
  shows "fst (update_stock d item opt l delta) = None \<and>
         stock_at (snd (update_stock d item opt l delta)) item (option_key opt) l =
           Some (JInt (stock_quantity d item (option_key opt) l + delta)) \<and>
         (\<forall>i ok l'. (i, ok, l') \<noteq> (item, option_key opt, l) \<longrightarrow>
            stock_at (snd (update_stock d item opt l delta)) i ok l' = stock_at d i ok l') \<and>
         map_of (snd (update_stock d item opt l delta)) ''history'' = map_of d ''history'' \<and>
         map_of (snd (update_stock d item opt l delta)) ''periods'' = map_of d ''periods'' \<and>
         map_of (snd (update_stock d item opt l delta)) ''current_period'' = map_of d ''current_period'' \<and>
         map_of (snd (update_stock d item opt l delta)) ''item_metadata'' = map_of d ''item_metadata''"
proof -
  from assms have cs: "current_schema d" by (simp add: already_upgraded_def)
  note fx = already_upgraded_fixed[OF assms]
  have r: "fst (update_stock d item opt l delta) = None"
    by (simp add: update_stock_current[OF cs])
  have f: "\<And>k. k \<noteq> ''stock'' \<Longrightarrow> map_of (snd (update_stock d item opt l delta)) k = map_of d k"
    by (simp add: map_of_update_stock[OF cs] fx)
  have q: "\<And>i ok l'. stock_at (snd (update_stock d item opt l delta)) i ok l' =
        (if i = item \<and> ok = option_key opt \<and> l' = l
         then Some (JInt (stock_quantity d item (option_key opt) l + delta))
         else stock_at d i ok l')"
    by (simp add: stock_at_def[of "snd (update_stock d item opt l delta)"] map_of_update_stock[OF cs]
          qty_at_put_quantity stock_quantity_stock_list[OF cs] stock_at_stock_list[OF cs])
  show ?thesis using r f q by auto
qed

theorem update_stock_frame_witness:
  "already_upgraded march_document \<and>
   fst (update_stock march_document ''Album X'' '''' ''Seoul'' (- 10)) = None \<and>
   stock_at (snd (update_stock march_document ''Album X'' '''' ''Seoul'' (- 10))) ''Album X'' '''' ''Seoul''
     = Some (JInt (- 4)) \<and>
   stock_at (snd (update_stock march_document ''Album X'' ''signed'' ''Busan'' 3)) ''Album X'' ''signed'' ''Busan''
     = Some (JInt 3) \<and>
   stock_at (snd (update_stock march_document ''Album X'' ''signed'' ''Busan'' 3)) ''Album X'' '''' ''Seoul''
     = Some (JInt 6) \<and>
   map_of (snd (update_stock march_document ''Album X'' '''' ''Seoul'' (- 10))) ''item_metadata''
     = map_of march_document ''item_metadata''"
proof -
  have h: "already_upgraded march_document" by code_simp
  have q1: "stock_quantity march_document ''Album X'' (option_key '''') ''Seoul'' = 6" by code_simp
  have q2: "stock_quantity march_document ''Album X'' (option_key ''signed'') ''Busan'' = 0" by code_simp
  have q3: "stock_at march_document ''Album X'' '''' ''Seoul'' = Some (JInt 6)" by code_simp
  have k: "option_key '''' = ''''" "option_key ''signed'' = ''signed''" by (simp_all add: option_key_def)
  show ?thesis
    using h q1 q2 q3 k
      update_stock_frame[OF h, of "''Album X''" "''''" "''Seoul''" "- 10"]
      update_stock_frame[OF h, of "''Album X''" "''signed''" "''Busan''" 3]
    by simp
qed

section \<open>The steps of record_transaction on a document of the current schema\<close>

lemma metadata_list_eq:
  assumes "current_schema d"
  shows "get_or d ''item_metadata'' (JDict []) = JDict (metadata_list d)"
    and "list_all (\<lambda>kv. isinstance_dict (snd kv)) (metadata_list d)"
  using assms
  by (cases "get_or d ''item_metadata'' (JDict [])"; auto simp: current_schema_def metadata_list_def)+

lemma history_list_eq:
  assumes "current_schema d"
  shows "get_or d ''history'' (JList []) = JList (history_list d)"
    and "list_all is_history_entry (history_list d)"
  using assms
  by (cases "get_or d ''history'' (JList [])"; auto simp: current_schema_def history_list_def)+

lemma typed_lookup_info:
  assumes "list_all (\<lambda>kv. isinstance_dict (snd kv)) m" and "map_of m item = Some v"
  shows "\<exists>info. v = JDict info"
proof -
  from assms(2) have "(item, v) \<in> set m" by (rule map_of_SomeD)
  with assms(1) have "isinstance_dict v" by (auto simp: list_all_iff)
  then show ?thesis by (cases v) auto
qed

lemma setdefault_info_lookup:
  "list_all (\<lambda>kv. isinstance_dict (snd kv)) m \<Longrightarrow>
   map_of (setdefault item (JDict []) m) item = Some (JDict (info_of m item))"
  by (cases "map_of m item") (auto simp: map_of_setdefault info_of_def dest: typed_lookup_info)

lemma recorded_artist_info_of:
  "current_schema d \<Longrightarrow> recorded_artist d item = map_of (info_of (metadata_list d) item) ''artist''"
  by (auto simp: recorded_artist_def metadata_list_eq info_of_def split: option.splits json.splits)

lemma metadata_entry_info_of:
  "current_schema d \<Longrightarrow>
   metadata_entry d item = (if map_of (metadata_list d) item = None then None
                            else Some (info_of (metadata_list d) item))"
  by (auto simp: metadata_entry_def metadata_list_eq info_of_def
           dest: typed_lookup_info[OF metadata_list_eq(2)] split: option.splits json.splits)

lemma setdefault_metadata_lookup:
  "current_schema d \<Longrightarrow>
   map_of (setdefault ''item_metadata'' (JDict []) d) ''item_metadata'' = Some (JDict (metadata_list d))"
  using metadata_list_eq(1)[of d]
  by (auto simp: map_of_setdefault get_or_def split: option.splits)

lemma bind_metadata_current:
  assumes "current_schema d"
  shows "bind_metadata d t =
           (if artist_conflict d t
            then (Some (ArtistMismatch (tx_item t) (the (recorded_artist d (tx_item t)))),
                  AList.update ''item_metadata''
                    (JDict (setdefault (tx_item t) (JDict []) (metadata_list d))) d)
            else (None,
                  AList.update ''item_metadata''
                    (JDict (AList.update (tx_item t)
                       (JDict (bound_info t (info_of (metadata_list d) (tx_item t))))
                       (metadata_list d))) d))"
proof -
  note m = metadata_list_eq[OF assms]
  show ?thesis
    unfolding bind_metadata_def Let_def
    by (auto simp: setdefault_metadata_lookup[OF assms] setdefault_info_lookup[OF m(2)]
          update_setdefault artist_conflict_def recorded_artist_info_of[OF assms] bound_info_def
          Let_def split: option.splits)
qed

lemma map_of_bind_metadata:
  assumes "current_schema d" and "k \<noteq> ''item_metadata''"
  shows "map_of (snd (bind_metadata d t)) k = map_of d k"
  using assms(2) by (simp add: bind_metadata_current[OF assms(1)] AList.update_conv')

lemma list_all_setdefault:
  "list_all P al \<Longrightarrow> P (k, v) \<Longrightarrow> list_all P (setdefault k v al)"
  by (simp add: setdefault_def split: option.splits)

lemma metadata_bind_metadata:
  assumes "current_schema d"
  shows "map_of (snd (bind_metadata d t)) ''item_metadata'' =
           Some (JDict (if artist_conflict d t
                        then setdefault (tx_item t) (JDict []) (metadata_list d)
                        else AList.update (tx_item t)
                               (JDict (bound_info t (info_of (metadata_list d) (tx_item t))))
                               (metadata_list d)))"
  by (simp add: bind_metadata_current[OF assms] AList.update_conv')

lemma current_schema_bind_metadata:
  assumes "current_schema d"
  shows "current_schema (snd (bind_metadata d t))"
proof -
  note m = metadata_list_eq[OF assms]
  have 1: "list_all (\<lambda>kv. isinstance_dict (snd kv)) (setdefault (tx_item t) (JDict []) (metadata_list d))"
    using m(2) by (intro list_all_setdefault) simp_all
  have 2: "list_all (\<lambda>kv. isinstance_dict (snd kv))
      (AList.update (tx_item t) (JDict (bound_info t (info_of (metadata_list d) (tx_item t)))) (metadata_list d))"
    using m(2) by (intro list_all_update) simp_all
  have "is_metadata (get_or (snd (bind_metadata d t)) ''item_metadata'' (JDict []))"
    using 1 2 by (simp add: get_or_def metadata_bind_metadata[OF assms])
  then show ?thesis
    using assms by (simp add: current_schema_def get_or_def map_of_bind_metadata[OF assms])
qed

lemma bound_info_fields:
  "map_of (bound_info t info) ''artist'' = Some (JStr (tx_artist t))"
  "map_of (bound_info t info) ''category'' = Some (JStr (normalize_category (tx_category t)))"
  "tx_option t \<noteq> [] \<Longrightarrow> map_of (bound_info t info) ''option'' = Some (JStr (tx_option t))"
  by (simp_all add: bound_info_def Let_def AList.update_conv')

lemma metadata_entry_bind_metadata:
  assumes "current_schema d" and "\<not> artist_conflict d t"
  shows "metadata_entry (snd (bind_metadata d t)) (tx_item t) =
           Some (bound_info t (info_of (metadata_list d) (tx_item t)))"
  using assms(2)
  by (simp add: metadata_entry_def get_or_def metadata_bind_metadata[OF assms(1)] AList.update_conv')

lemma get_available_current:
  assumes "current_schema d"
  shows "get_available d item okey l = Inr (JInt (stock_quantity d item okey l))"
proof -
  note s = stock_list_eq[OF assms]
  note om = typed_option_map_of[OF s(2), of item]
  note locs = typed_locations_of[OF om, of okey]
  have "get_available d item okey l =
          Inr (case map_of (locations_of (option_map_of (stock_list d) item) okey) l of
                 None \<Rightarrow> JInt 0 | Some q \<Rightarrow> q)"
  proof (cases "map_of (stock_list d) item")
    case None
    then show ?thesis
      using s(1) by (simp add: get_available_def option_map_of_def locations_of_def)
  next
    case (Some v)
    then obtain om' where v: "v = JDict om'" "list_all (\<lambda>kv. is_location_map (snd kv)) om'"
      using typed_lookup_item[OF s(2)] by blast
    show ?thesis
    proof (cases "map_of om' okey")
      case None
      then show ?thesis
        using s(1) Some v by (simp add: get_available_def option_map_of_def locations_of_def)
    next
      case (Some w)
      then obtain ls where "w = JDict ls"
        using typed_lookup_option[OF v(2)] by blast
      then show ?thesis
        using s(1) \<open>map_of (stock_list d) item = Some v\<close> v Some
        by (simp add: get_available_def option_map_of_def locations_of_def)
    qed
  qed
  then show ?thesis
    by (simp add: location_quantity[OF locs] stock_quantity_stock_list[OF assms] quantity_in_def
          qty_at_lookups)
qed

lemma move_stock_current:
  assumes "current_schema d"
  shows "move_stock d t allow =
           (if tx_type t = ''out'' \<and>
               stock_quantity d (tx_item t) (option_key (tx_option t)) (tx_location t) < tx_quantity t \<and>
               \<not> allow
            then (Some (InsufficientStock (tx_item t) (tx_location t)
                          (JInt (stock_quantity d (tx_item t) (option_key (tx_option t)) (tx_location t)))
                          (tx_quantity t)), d)
            else update_stock d (tx_item t) (tx_option t) (tx_location t)
                   (if tx_type t = ''out'' then - tx_quantity t else tx_quantity t))"
  by (simp add: move_stock_def get_available_current[OF assms])

lemma append_history_current:
  assumes "current_schema d"
  shows "fst (append_history d e) = None"
    and "get_or (snd (append_history d e)) ''history'' (JList []) = JList (history_list d @ [e])"
    and "k \<noteq> ''history'' \<Longrightarrow> map_of (snd (append_history d e)) k = map_of d k"
  using history_list_eq(1)[OF assms]
  by (auto simp: append_history_def get_or_def AList.update_conv' map_add_def split: option.splits json.splits)

lemma current_schema_append_history:
  assumes "current_schema d" and "is_history_entry e"
  shows "current_schema (snd (append_history d e))"
  using assms history_list_eq(2)[OF assms(1)]
  by (simp add: current_schema_def get_or_def[of _ "''stock''"] get_or_def[of _ "''item_metadata''"]
        get_or_def[of _ "''periods''"] get_or_def[of _ "''current_period''"]
        append_history_current[OF assms(1)])

lemma is_history_entry_to_dict: "is_history_entry (JDict (to_dict t))"
  by (simp add: to_dict_def)

section \<open>record_transaction on a document of the current schema\<close>

lemma fst_ensure_period: "current_schema d \<Longrightarrow> fst (ensure_period d p now) = None"
  by (simp add: ensure_period_current)

lemma recorded_artist_cong:
  "get_or d' ''item_metadata'' (JDict []) = get_or d ''item_metadata'' (JDict []) \<Longrightarrow>
   recorded_artist d' item = recorded_artist d item"
  by (simp add: recorded_artist_def)

lemma stock_quantity_cong:
  "map_of d' ''stock'' = map_of d ''stock'' \<Longrightarrow> stock_quantity d' i ok l = stock_quantity d i ok l"
  by (simp add: stock_quantity_def stock_at_def)

lemma stock_list_cong:
  "map_of d' ''stock'' = map_of d ''stock'' \<Longrightarrow> stock_list d' = stock_list d"
  by (simp add: stock_list_def)

lemma history_list_cong:
  "map_of d' ''history'' = map_of d ''history'' \<Longrightarrow> history_list d' = history_list d"
  by (simp add: history_list_def get_or_def)

lemma current_schema_prepared:
  "current_schema d \<Longrightarrow> current_schema (prepared d t now)"
  by (simp add: prepared_def current_schema_upgraded_metadata current_schema_ensure_period)

lemma map_of_prepared:
  assumes "current_schema d"
  shows "map_of (prepared d t now) ''stock'' = map_of d ''stock''"
    and "map_of (prepared d t now) ''history'' = map_of d ''history''"
    and "map_of (prepared d t now) ''periods'' = map_of (snd (ensure_period d (period t) now)) ''periods''"
    and "map_of (prepared d t now) ''current_period'' =
         map_of (snd (ensure_period d (period t) now)) ''current_period''"
  by (simp_all add: prepared_def map_of_upgraded_metadata ensure_period_frame[OF assms])

lemma recorded_artist_prepared:
  assumes "current_schema d"
  shows "recorded_artist (prepared d t now) item = recorded_artist d item"
proof -
  have "recorded_artist (prepared d t now) item = recorded_artist (snd (ensure_period d (period t) now)) item"
    unfolding prepared_def
    by (rule recorded_artist_upgraded_metadata) (rule current_schema_ensure_period[OF assms])
  also have "\<dots> = recorded_artist (upgraded_metadata d) item"
    by (rule recorded_artist_cong) (rule ensure_period_frame(3)[OF assms])
  also have "\<dots> = recorded_artist d item"
    by (rule recorded_artist_upgraded_metadata[OF assms])
  finally show ?thesis .
qed

lemma artist_conflict_prepared:
  "current_schema d \<Longrightarrow> artist_conflict (prepared d t now) t = artist_conflict d t"
  by (simp add: artist_conflict_def recorded_artist_prepared)

lemma current_schema_bound:
  "current_schema d \<Longrightarrow> current_schema (bound d t now)"
  by (simp add: bound_def current_schema_bind_metadata current_schema_prepared)

lemma map_of_bound:
  assumes "current_schema d"
  shows "map_of (bound d t now) ''stock'' = map_of d ''stock''"
    and "map_of (bound d t now) ''history'' = map_of d ''history''"
    and "map_of (bound d t now) ''periods'' = map_of (snd (ensure_period d (period t) now)) ''periods''"
    and "map_of (bound d t now) ''current_period'' =
         map_of (snd (ensure_period d (period t) now)) ''current_period''"
  by (simp_all add: bound_def map_of_bind_metadata[OF current_schema_prepared[OF assms]]
        map_of_prepared[OF assms])

lemma and_then_alt:
  "and_then r f = (case fst r of None \<Rightarrow> f (snd r) | Some e \<Rightarrow> (Some e, snd r))"
  by (cases r; cases "fst r") (auto simp: and_then_def)

lemma record_transaction_current:
  assumes "current_schema d"
  shows "record_transaction d t allow now =
           (if artist_conflict d t
            then (Some (ArtistMismatch (tx_item t) (the (recorded_artist d (tx_item t)))), bound d t now)
            else if short_of_stock d t \<and> \<not> allow
            then (Some (InsufficientStock (tx_item t) (tx_location t)
                          (JInt (stock_quantity d (tx_item t) (option_key (tx_option t)) (tx_location t)))
                          (tx_quantity t)), bound d t now)
            else (None, snd (append_history
                              (snd (update_stock (bound d t now) (tx_item t) (tx_option t) (tx_location t)
                                      (signed_quantity t)))
                              (JDict (to_dict t)))))"
proof -
  let ?d1 = "snd (ensure_period d (period t) now)"
  let ?d4 = "snd (update_stock (bound d t now) (tx_item t) (tx_option t) (tx_location t) (signed_quantity t))"
  have 1: "fst (ensure_period d (period t) now) = None"
    by (rule fst_ensure_period[OF assms])
  have cs1: "current_schema ?d1" by (rule current_schema_ensure_period[OF assms])
  have 2: "ensure_new_schema ?d1 = (None, prepared d t now)"
    by (simp add: ensure_new_schema_current[OF cs1] prepared_def)
  note cs2 = current_schema_prepared[OF assms, of t now]
  note cs3 = current_schema_bound[OF assms, of t now]
  have 3: "bind_metadata (prepared d t now) t =
      (if artist_conflict d t
       then Some (ArtistMismatch (tx_item t) (the (recorded_artist d (tx_item t)))) else None,
       bound d t now)"
    by (simp add: bound_def bind_metadata_current[OF cs2] artist_conflict_prepared[OF assms]
          recorded_artist_prepared[OF assms])
  have q: "stock_quantity (bound d t now) (tx_item t) (option_key (tx_option t)) (tx_location t) =
           stock_quantity d (tx_item t) (option_key (tx_option t)) (tx_location t)"
    by (rule stock_quantity_cong) (rule map_of_bound(1)[OF assms])
  have u: "fst (update_stock (bound d t now) (tx_item t) (tx_option t) (tx_location t) (signed_quantity t)) = None"
    by (simp add: update_stock_current[OF cs3])
  have cs4: "current_schema ?d4"
    by (rule current_schema_update_stock[OF cs3])
  have a: "fst (append_history ?d4 (JDict (to_dict t))) = None"
    by (rule append_history_current(1)[OF cs4])
  have m: "move_stock (bound d t now) t allow =
      (if short_of_stock d t \<and> \<not> allow
       then (Some (InsufficientStock (tx_item t) (tx_location t)
                     (JInt (stock_quantity d (tx_item t) (option_key (tx_option t)) (tx_location t)))
                     (tx_quantity t)), bound d t now)
       else (None, ?d4))"
    using u by (auto simp: move_stock_current[OF cs3] q short_of_stock_def signed_quantity_def prod_eq_iff)
  show ?thesis
  proof (cases "artist_conflict d t")
    case True
    then show ?thesis
      using 1 by (simp add: record_transaction_def and_then_alt 2 3)
  next
    case no_conflict: False
    show ?thesis
    proof (cases "short_of_stock d t \<and> \<not> allow")
      case True
      with m have "move_stock (bound d t now) t allow =
          (Some (InsufficientStock (tx_item t) (tx_location t)
                   (JInt (stock_quantity d (tx_item t) (option_key (tx_option t)) (tx_location t)))
                   (tx_quantity t)), bound d t now)"
        by simp
      then show ?thesis
        using 1 no_conflict True by (simp add: record_transaction_def and_then_alt 2 3)
    next
      case False
      with m have "move_stock (bound d t now) t allow = (None, ?d4)"
        by simp
      then show ?thesis
        using 1 a no_conflict False
        by (simp add: record_transaction_def and_then_alt 2 3 prod_eq_iff)
    qed
  qed
qed

section \<open>The artist of an item and the availability check\<close>

lemma recorded_artist_bound:
  assumes "current_schema d" and "\<not> artist_conflict d t"
  shows "recorded_artist (bound d t now) (tx_item t) = Some (JStr (tx_artist t))"
  using assms(2)
  by (simp add: recorded_artist_def get_or_def bound_def
        metadata_bind_metadata[OF current_schema_prepared[OF assms(1)]]
        artist_conflict_prepared[OF assms(1)] AList.update_conv' bound_info_fields)

lemma metadata_entry_bound:
  assumes "current_schema d" and "\<not> artist_conflict d t"
  shows "metadata_entry (bound d t now) (tx_item t) =
           Some (bound_info t (info_of (metadata_list (prepared d t now)) (tx_item t)))"
  using assms(2)
  by (simp add: bound_def metadata_entry_bind_metadata[OF current_schema_prepared[OF assms(1)]]
        artist_conflict_prepared[OF assms(1)])

lemma recorded_artist_recorded:
  assumes "current_schema d"
  shows "recorded_artist (snd (append_history (snd (update_stock d item opt l q)) e)) i =
         recorded_artist d i"
proof -
  have "recorded_artist (snd (append_history (snd (update_stock d item opt l q)) e)) i =
        recorded_artist (snd (update_stock d item opt l q)) i"
    by (rule recorded_artist_cong)
       (simp add: get_or_def append_history_current(3)[OF current_schema_update_stock[OF assms]])
  also have "\<dots> = recorded_artist (upgraded_metadata d) i"
    by (rule recorded_artist_cong) (simp add: get_or_def map_of_update_stock[OF assms])
  also have "\<dots> = recorded_artist d i"
    by (rule recorded_artist_upgraded_metadata[OF assms])
  finally show ?thesis .
qed

text \<open>
  Claim C6 (artist binding). On a document of the current schema \<^verbatim>\<open>record_transaction\<close>
  fails with the artist-mismatch error exactly when the metadata of the item records an
  artist that is not empty and differs from the transaction's. In every other case, in
  particular when the item has no metadata entry or no artist yet, the call leaves the
  transaction's artist recorded as the artist of the item.
\<close>

theorem artist_binding:
  assumes "current_schema d"
  shows "(is_artist_mismatch (fst (record_transaction d t allow now)) \<longleftrightarrow> artist_conflict d t) \<and>
         (\<not> artist_conflict d t \<longrightarrow>
            recorded_artist (snd (record_transaction d t allow now)) (tx_item t) = Some (JStr (tx_artist t)))"
  by (simp add: record_transaction_current[OF assms] recorded_artist_bound[OF assms]
        recorded_artist_recorded[OF current_schema_bound[OF assms]])

theorem artist_binding_witness:
  "current_schema march_document \<and> artist_conflict march_document (out_of_seoul ''ArtistB'' 1 march_9) \<and>
   is_artist_mismatch (fst (record_transaction march_document (out_of_seoul ''ArtistB'' 1 march_9) False
                              ''2024-03-09T09:00:00'')) \<and>
   current_schema empty_document \<and> \<not> artist_conflict empty_document (out_of_seoul ''ArtistB'' 1 march_9) \<and>
   \<not> is_artist_mismatch (fst (record_transaction empty_document (out_of_seoul ''ArtistB'' 1 march_9) False
                                ''2024-03-09T09:00:00'')) \<and>
   recorded_artist (snd (record_transaction empty_document (out_of_seoul ''ArtistB'' 1 march_9) False
                           ''2024-03-09T09:00:00'')) ''Album X'' = Some (JStr ''ArtistB'')"
proof -
  have h1: "current_schema march_document" by code_simp
  have h2: "artist_conflict march_document (out_of_seoul ''ArtistB'' 1 march_9)" by code_simp
  have h3: "current_schema empty_document" by code_simp
  have h4: "\<not> artist_conflict empty_document (out_of_seoul ''ArtistB'' 1 march_9)" by code_simp
  have i: "tx_item (out_of_seoul ''ArtistB'' 1 march_9) = ''Album X''"
          "tx_artist (out_of_seoul ''ArtistB'' 1 march_9) = ''ArtistB''"
    by (simp_all add: out_of_seoul_def)
  show ?thesis
    using h1 h2 h3 h4 i
      artist_binding[OF h1, of "out_of_seoul ''ArtistB'' 1 march_9" False "''2024-03-09T09:00:00''"]
      artist_binding[OF h3, of "out_of_seoul ''ArtistB'' 1 march_9" False "''2024-03-09T09:00:00''"]
    by simp
qed

text \<open>
  Claim C2 (an outbound movement that exceeds the stock), as stated, at a concrete input:
  six units are available, ten are requested without the override, and the call fails,
  but with the artist-mismatch error, because the artist is compared before the stock.
\<close>

theorem artist_checked_before_stock:
  "tx_type (out_of_seoul ''ArtistB'' 10 march_9) = ''out'' \<and>
   stock_quantity march_document ''Album X'' '''' ''Seoul'' = 6 \<and>
   tx_quantity (out_of_seoul ''ArtistB'' 10 march_9) = 10 \<and>
   fst (record_transaction march_document (out_of_seoul ''ArtistB'' 10 march_9) False ''2024-03-09T09:00:00'')
     = Some (ArtistMismatch ''Album X'' (JStr ''ArtistA''))"
  by code_simp

text \<open>
  Claim C2 as amended. On a document of the current schema, for a transaction of type
  \<open>out\<close> whose artist does not conflict with the one recorded for the item, when the
  available quantity (0 when absent) is strictly less than the requested one and
  \<^verbatim>\<open>allow_negative\<close> is false, \<^verbatim>\<open>record_transaction\<close> fails with the insufficient-stock error
  carrying the item, the location, the available and the requested quantity, and the
  stock and the history are as before the call.
\<close>

theorem insufficient_stock_atomic:
  assumes "current_schema d"
    and "tx_type t = ''out''"
    and "stock_quantity d (tx_item t) (option_key (tx_option t)) (tx_location t) < tx_quantity t"
    and "\<not> artist_conflict d t"
  shows "fst (record_transaction d t False now) =
           Some (InsufficientStock (tx_item t) (tx_location t)
                   (JInt (stock_quantity d (tx_item t) (option_key (tx_option t)) (tx_location t)))
                   (tx_quantity t)) \<and>
         map_of (snd (record_transaction d t False now)) ''stock'' = map_of d ''stock'' \<and>
         map_of (snd (record_transaction d t False now)) ''history'' = map_of d ''history''"
  using assms(2-4)
  by (simp add: record_transaction_current[OF assms(1)] short_of_stock_def map_of_bound[OF assms(1)])

theorem insufficient_stock_atomic_witness:
  "current_schema march_document \<and>
   fst (record_transaction march_document (out_of_seoul ''ArtistA'' 10 march_9) False ''2024-03-09T09:00:00'')
     = Some (InsufficientStock ''Album X'' ''Seoul'' (JInt 6) 10) \<and>
   stock_at (snd (record_transaction march_document (out_of_seoul ''ArtistA'' 10 march_9) False
                    ''2024-03-09T09:00:00'')) ''Album X'' '''' ''Seoul'' = Some (JInt 6) \<and>
   map_of (snd (record_transaction march_document (out_of_seoul ''ArtistA'' 10 march_9) False
                  ''2024-03-09T09:00:00'')) ''history'' = Some (JList [])"
proof -
  let ?t = "out_of_seoul ''ArtistA'' 10 march_9"
  have h1: "current_schema march_document" by code_simp
  have h2: "tx_type ?t = ''out''" by (simp add: out_of_seoul_def)
  have q: "stock_quantity march_document (tx_item ?t) (option_key (tx_option ?t)) (tx_location ?t) = 6"
    by code_simp
  have h3: "stock_quantity march_document (tx_item ?t) (option_key (tx_option ?t)) (tx_location ?t)
              < tx_quantity ?t"
    by (simp add: q) (simp add: out_of_seoul_def)
  have h4: "\<not> artist_conflict march_document ?t" by code_simp
  have f: "tx_item ?t = ''Album X''" "tx_location ?t = ''Seoul''" "tx_quantity ?t = 10"
      "option_key (tx_option ?t) = []"
    by (simp_all add: out_of_seoul_def option_key_def)
  have q': "stock_quantity march_document ''Album X'' [] ''Seoul'' = 6"
    using q by (simp add: f)
  have s: "map_of march_document ''stock'' = Some (JDict [(''Album X'', JDict [('''', JDict [(''Seoul'', JInt 6)])])])"
    and h: "map_of march_document ''history'' = Some (JList [])"
    by (simp_all add: march_document_def)
  show ?thesis
    using h1 insufficient_stock_atomic[OF h1 h2 h3 h4, of "''2024-03-09T09:00:00''"]
    by (simp add: q' f s h stock_at_def qty_at_def)
qed

section \<open>A call that returns, the boundary, and a call that fails for lack of stock\<close>

lemma record_transaction_success:
  assumes "current_schema d" and "\<not> artist_conflict d t" and "\<not> (short_of_stock d t \<and> \<not> allow)"
  shows "fst (record_transaction d t allow now) = None"
    and "map_of (snd (record_transaction d t allow now)) ''stock'' =
           Some (JDict (put_quantity (stock_list d) (tx_item t) (option_key (tx_option t)) (tx_location t)
                          (quantity_in (stock_list d) (tx_item t) (option_key (tx_option t)) (tx_location t)
                             + signed_quantity t)))"
    and "get_or (snd (record_transaction d t allow now)) ''history'' (JList []) =
           JList (history_list d @ [JDict (to_dict t)])"
    and "current_schema (snd (record_transaction d t allow now))"
proof -
  let ?b = "bound d t now"
  let ?u = "snd (update_stock ?b (tx_item t) (tx_option t) (tx_location t) (signed_quantity t))"
  note csb = current_schema_bound[OF assms(1), of t now]
  note csu = current_schema_update_stock[OF csb, of "tx_item t" "tx_option t" "tx_location t" "signed_quantity t"]
  have r: "record_transaction d t allow now = (None, snd (append_history ?u (JDict (to_dict t))))"
    using assms(2,3) by (simp add: record_transaction_current[OF assms(1)])
  have sl: "stock_list ?b = stock_list d"
    by (rule stock_list_cong) (rule map_of_bound(1)[OF assms(1)])
  have hl: "history_list ?u = history_list d"
    by (rule history_list_cong)
       (simp add: map_of_update_stock[OF csb] map_of_upgraded_metadata map_of_bound(2)[OF assms(1)])
  show "fst (record_transaction d t allow now) = None" by (simp add: r)
  show "map_of (snd (record_transaction d t allow now)) ''stock'' =
           Some (JDict (put_quantity (stock_list d) (tx_item t) (option_key (tx_option t)) (tx_location t)
                          (quantity_in (stock_list d) (tx_item t) (option_key (tx_option t)) (tx_location t)
                             + signed_quantity t)))"
    by (simp add: r append_history_current(3)[OF csu] map_of_update_stock[OF csb] sl)
  show "get_or (snd (record_transaction d t allow now)) ''history'' (JList []) =
           JList (history_list d @ [JDict (to_dict t)])"
    by (simp add: r append_history_current(2)[OF csu] hl)
  show "current_schema (snd (record_transaction d t allow now))"
    by (simp add: r current_schema_append_history[OF csu is_history_entry_to_dict])
qed

text \<open>
  Claim C7 (an outbound movement of exactly the available quantity), as stated, at a
  concrete input: six units are available and six are requested, and the call fails with
  the artist-mismatch error, because the item is bound to another artist.
\<close>

theorem boundary_with_other_artist:
  "tx_type (out_of_seoul ''ArtistB'' 6 march_9) = ''out'' \<and>
   tx_quantity (out_of_seoul ''ArtistB'' 6 march_9) = stock_quantity march_document ''Album X'' '''' ''Seoul'' \<and>
   fst (record_transaction march_document (out_of_seoul ''ArtistB'' 6 march_9) False ''2024-03-09T09:00:00'')
     = Some (ArtistMismatch ''Album X'' (JStr ''ArtistA''))"
  by code_simp

text \<open>
  Claim C7 as amended. On a document of the current schema, for a transaction of type
  \<open>out\<close> whose artist does not conflict with the one recorded for the item and whose
  quantity equals the available quantity, \<^verbatim>\<open>record_transaction\<close> returns, with or without
  \<^verbatim>\<open>allow_negative\<close>; afterwards \<^verbatim>\<open>stock[item][option][location]\<close> is exactly 0 and the history
  is the one before the call followed by the one entry of the transaction.
\<close>

theorem outbound_boundary:
  assumes "current_schema d"
    and "tx_type t = ''out''"
    and "tx_quantity t = stock_quantity d (tx_item t) (option_key (tx_option t)) (tx_location t)"
    and "\<not> artist_conflict d t"
  shows "fst (record_transaction d t allow now) = None \<and>
         stock_at (snd (record_transaction d t allow now)) (tx_item t) (option_key (tx_option t)) (tx_location t)
           = Some (JInt 0) \<and>
         get_or (snd (record_transaction d t allow now)) ''history'' (JList []) =
           JList (history_list d @ [JDict (to_dict t)])"
proof -
  have ns: "\<not> (short_of_stock d t \<and> \<not> allow)"
    using assms(3) by (simp add: short_of_stock_def)
  have z: "quantity_in (stock_list d) (tx_item t) (option_key (tx_option t)) (tx_location t)
             + signed_quantity t = 0"
    using assms(2,3) by (simp add: signed_quantity_def stock_quantity_stock_list[OF assms(1)])
  show ?thesis
    using record_transaction_success[OF assms(1) assms(4) ns, of now]
    by (simp add: stock_at_def z qty_at_put_quantity)
qed

theorem outbound_boundary_witness:
  "current_schema march_document \<and>
   fst (record_transaction march_document (out_of_seoul ''ArtistA'' 6 march_9) False ''2024-03-09T09:00:00'')
     = None \<and>
   stock_at (snd (record_transaction march_document (out_of_seoul ''ArtistA'' 6 march_9) False
                    ''2024-03-09T09:00:00'')) ''Album X'' [] ''Seoul'' = Some (JInt 0) \<and>
   get_or (snd (record_transaction march_document (out_of_seoul ''ArtistA'' 6 march_9) False
                  ''2024-03-09T09:00:00'')) ''history'' (JList [])
     = JList [JDict (to_dict (out_of_seoul ''ArtistA'' 6 march_9))]"
proof -
  let ?t = "out_of_seoul ''ArtistA'' 6 march_9"
  have h1: "current_schema march_document" by code_simp
  have f: "tx_type ?t = ''out''" "tx_item ?t = ''Album X''" "tx_location ?t = ''Seoul''"
      "tx_quantity ?t = 6" "option_key (tx_option ?t) = []"
    by (simp_all add: out_of_seoul_def option_key_def)
  have q: "stock_quantity march_document ''Album X'' [] ''Seoul'' = 6" by code_simp
  have h3: "tx_quantity ?t = stock_quantity march_document (tx_item ?t) (option_key (tx_option ?t)) (tx_location ?t)"
    by (simp add: f q)
  have h4: "\<not> artist_conflict march_document ?t" by code_simp
  have hl: "history_list march_document = []" by code_simp
  show ?thesis
    using h1 outbound_boundary[OF h1 f(1) h3 h4, of False "''2024-03-09T09:00:00''"]
    by (simp add: f hl)
qed

text \<open>
  \<^verbatim>\<open>normalize_category\<close> at some values: the default, blanks of ASCII and of the other
  planes of Unicode around the name, capitals, the Korean names, and a name that is none
  of the known ones (the last one is a capital I with a dot, lowered to two code points).
\<close>

lemma normalize_category_values:
  "normalize_category [] = ''album''"
  "normalize_category '' MD '' = ''md''"
  "normalize_category ([CHR 0xE3, CHR 0x80, CHR 0x80] @ ''md'') = ''md''"
  "normalize_category ([CHR 0xC2, CHR 0xA0] @ ''Merch'' @ [CHR 0xE2, CHR 0x80, CHR 0x83]) = ''md''"
  "normalize_category (''MD/'' @ goods_kr) = ''md''"
  "normalize_category (goods_kr @ [CHR 0x0A]) = ''md''"
  "normalize_category album_kr = ''album''"
  "normalize_category [CHR 0x20, CHR 0x09, CHR 0xE3, CHR 0x80, CHR 0x80] = ''album''"
  "normalize_category ''Photo Card'' = ''photo card''"
  "normalize_category [CHR 0xC4, CHR 0xB0] = [CHR 0x69, CHR 0xCC, CHR 0x87]"
  by code_simp+

text \<open>
  Claim C9 (what a failed outbound movement leaves behind). On a document of the current
  schema, when \<^verbatim>\<open>record_transaction\<close> fails with the insufficient-stock error, the metadata
  entry of the item holds the transaction's artist, the normalised category and, when the
  option is not empty, the option; the periods and the current period are the ones
  \<^verbatim>\<open>ensure_period\<close> left, which may have started the transaction's period; the stock and
  the history are as before the call.
\<close>

theorem failure_keeps_metadata_and_period:
  assumes "current_schema d"
    and "is_insufficient_stock (fst (record_transaction d t False now))"
  shows "(\<exists>info. metadata_entry (snd (record_transaction d t False now)) (tx_item t) = Some info \<and>
            map_of info ''artist'' = Some (JStr (tx_artist t)) \<and>
            map_of info ''category'' = Some (JStr (normalize_category (tx_category t))) \<and>
            (tx_option t \<noteq> [] \<longrightarrow> map_of info ''option'' = Some (JStr (tx_option t)))) \<and>
         map_of (snd (record_transaction d t False now)) ''periods'' =
           map_of (snd (ensure_period d (period t) now)) ''periods'' \<and>
         map_of (snd (record_transaction d t False now)) ''current_period'' =
           map_of (snd (ensure_period d (period t) now)) ''current_period'' \<and>
         map_of (snd (record_transaction d t False now)) ''stock'' = map_of d ''stock'' \<and>
         map_of (snd (record_transaction d t False now)) ''history'' = map_of d ''history''"
proof -
  have nc: "\<not> artist_conflict d t"
    using assms(2) by (auto simp: record_transaction_current[OF assms(1)])
  have sh: "short_of_stock d t"
    using assms(2) nc by (auto simp: record_transaction_current[OF assms(1)] split: if_splits)
  have r: "snd (record_transaction d t False now) = bound d t now"
    using nc sh by (simp add: record_transaction_current[OF assms(1)])
  show ?thesis
    unfolding r
    by (simp add: metadata_entry_bound[OF assms(1) nc] bound_info_fields map_of_bound[OF assms(1)])
qed

theorem failure_keeps_metadata_and_period_witness:
  "current_schema march_document \<and>
   is_insufficient_stock
     (fst (record_transaction march_document signed_merch_out False ''2024-04-02T14:30:00'')) \<and>
   metadata_entry march_document ''Album X'' =
     Some [(''artist'', JStr ''ArtistA''), (''category'', JStr ''album''), (''last_audit'', JDict [])] \<and>
   (\<exists>info. metadata_entry
             (snd (record_transaction march_document signed_merch_out False ''2024-04-02T14:30:00''))
             ''Album X'' = Some info \<and>
           map_of info ''artist'' = Some (JStr ''ArtistA'') \<and>
           map_of info ''category'' = Some (JStr ''md'') \<and>
           map_of info ''option'' = Some (JStr ''signed'')) \<and>
   map_of (snd (record_transaction march_document signed_merch_out False ''2024-04-02T14:30:00''))
     ''current_period'' = Some (JStr ''2024-04'') \<and>
   map_of march_document ''current_period'' = Some (JStr ''2024-03'') \<and>
   map_of (snd (record_transaction march_document signed_merch_out False ''2024-04-02T14:30:00''))
     ''stock'' = map_of march_document ''stock'' \<and>
   map_of (snd (record_transaction march_document signed_merch_out False ''2024-04-02T14:30:00''))
     ''history'' = Some (JList [])"
proof -
  let ?t = "signed_merch_out"
  have h1: "current_schema march_document" by code_simp
  have h2: "is_insufficient_stock (fst (record_transaction march_document ?t False ''2024-04-02T14:30:00''))"
    by code_simp
  have p: "map_of (snd (ensure_period march_document (period ?t) ''2024-04-02T14:30:00'')) ''current_period''
             = Some (JStr ''2024-04'')"
    by code_simp
  have c: "map_of march_document ''current_period'' = Some (JStr ''2024-03'')" by code_simp
  have h: "map_of march_document ''history'' = Some (JList [])" by code_simp
  have m: "metadata_entry march_document ''Album X'' =
             Some [(''artist'', JStr ''ArtistA''), (''category'', JStr ''album''), (''last_audit'', JDict [])]"
    by code_simp
  have n: "normalize_category (tx_category ?t) = ''md''" by code_simp
  have f: "tx_item ?t = ''Album X''" "tx_option ?t = ''signed''" "tx_artist ?t = ''ArtistA''"
    by (simp_all add: signed_merch_out_def out_of_seoul_def)
  show ?thesis
    using h1 h2 c m failure_keeps_metadata_and_period[OF h1 h2]
    by (auto simp: f p n h)
qed

section \<open>Stock consistency\<close>

lemma summarize_from_append:
  "summarize_from acc (h @ [e]) =
     (case summarize_from acc h of Inl x \<Rightarrow> Inl x | Inr s \<Rightarrow> summarize_entry s e)"
  by (induction h arbitrary: acc) (auto split: sum.splits)

lemma summarize_entry_to_dict:
  "summarize_entry s (JDict (to_dict t)) =
     add_to_summary s (tx_item t) (option_key (tx_option t)) (tx_location t)
       ((if tx_type t = ''in'' then 1 else - 1) * tx_quantity t)"
  by (simp add: summarize_entry_def to_dict_def subscript_def or_else_def option_key_def)

lemma entry_effect_to_dict:
  "tx_type t = ''in'' \<or> tx_type t = ''out'' \<Longrightarrow>
   entry_effect (JDict (to_dict t)) i ok l =
     (if tx_item t = i \<and> option_key (tx_option t) = ok \<and> tx_location t = l
      then signed_quantity t else 0)"
  by (auto simp: entry_effect_def to_dict_def get_or_def signed_quantity_def option_key_def)

lemma quantity_in_put_quantity:
  "quantity_in (put_quantity s item okey l n) i ok l' =
     (if i = item \<and> ok = okey \<and> l' = l then n else quantity_in s i ok l')"
  by (simp add: quantity_in_def qty_at_put_quantity)

lemma net_quantity_append:
  "net_quantity (h @ [e]) i ok l = net_quantity h i ok l + entry_effect e i ok l"
  by (simp add: net_quantity_def)

lemma consistent_step:
  assumes "consistent d"
    and "record_transaction d t allow now = (None, d')"
    and "tx_type t = ''in'' \<or> tx_type t = ''out''"
  shows "consistent d'"
proof -
  from assms(1) have cs: "current_schema d"
    and sm: "summarize (history_list d) = Inr (stock_list d)"
    and nq: "\<And>i ok l. quantity_in (stock_list d) i ok l = net_quantity (history_list d) i ok l"
    by (simp_all add: consistent_def)
  have nc: "\<not> artist_conflict d t"
    using assms(2) by (auto simp: record_transaction_current[OF cs] split: if_splits)
  have ns: "\<not> (short_of_stock d t \<and> \<not> allow)"
    using assms(2) nc by (auto simp: record_transaction_current[OF cs] split: if_splits)
  note ok = record_transaction_success[OF cs nc ns, of now, unfolded assms(2) snd_conv]
  let ?s' = "put_quantity (stock_list d) (tx_item t) (option_key (tx_option t)) (tx_location t)
               (quantity_in (stock_list d) (tx_item t) (option_key (tx_option t)) (tx_location t)
                  + signed_quantity t)"
  have sl: "stock_list d' = ?s'" using ok(2) by (simp add: stock_list_def)
  have hl: "history_list d' = history_list d @ [JDict (to_dict t)]"
    using ok(3) by (simp add: history_list_def)
  have sg: "(if tx_type t = ''in'' then 1 else - 1) * tx_quantity t = signed_quantity t"
    using assms(3) by (auto simp: signed_quantity_def)
  have "summarize (history_list d') = Inr (stock_list d')"
    using sm
    by (simp add: hl sl summarize_def summarize_from_append summarize_entry_to_dict sg
          add_to_summary_typed[OF stock_list_eq(2)[OF cs]])
  moreover have "\<And>i ok l. quantity_in (stock_list d') i ok l = net_quantity (history_list d') i ok l"
    by (auto simp: hl sl quantity_in_put_quantity net_quantity_append entry_effect_to_dict[OF assms(3)] nq)
  ultimately show ?thesis
    using ok(4) by (simp add: consistent_def)
qed

lemma consistent_record_all:
  assumes "consistent d" and "record_all d calls = Some d'" and "list_all in_or_out calls"
  shows "consistent d'"
  using assms
proof (induction calls arbitrary: d)
  case Nil
  then show ?case by simp
next
  case (Cons c calls)
  obtain e d1 where r: "record_transaction d (fst c) (fst (snd c)) (snd (snd c)) = (e, d1)"
    by (cases "record_transaction d (fst c) (fst (snd c)) (snd (snd c))")
  have e: "e = None"
    using Cons.prems(2) r by (cases e) simp_all
  have rest: "record_all d1 calls = Some d'"
    using Cons.prems(2) r e by simp
  have io: "tx_type (fst c) = ''in'' \<or> tx_type (fst c) = ''out''"
    using Cons.prems(3) by (simp add: in_or_out_def)
  have tl: "list_all in_or_out calls"
    using Cons.prems(3) by simp
  have "consistent d1"
    using Cons.prems(1) r[unfolded e] io by (rule consistent_step)
  then show ?case
    using rest tl by (rule Cons.IH)
qed

lemma consistent_empty_document: "consistent empty_document"
proof -
  have "current_schema empty_document" by code_simp
  moreover have "stock_list empty_document = []" "history_list empty_document = []"
    by (simp_all add: stock_list_def history_list_def get_or_def empty_document_def)
  ultimately show ?thesis
    by (simp add: consistent_def summarize_def quantity_in_def qty_at_def net_quantity_def)
qed

text \<open>
  Claim C1 (stock consistency). For every document reached from the empty document by a
  sequence of \<^verbatim>\<open>record_transaction\<close> calls that all returned, with transactions of type \<open>in\<close>
  or \<open>out\<close>: \<^verbatim>\<open>summarize\<close> of the whole history returns the live stock map itself; every
  stored \<^verbatim>\<open>stock[item][option][location]\<close> is the net signed quantity of the history entries of
  that key, and a key that is absent from the stock has net quantity 0.
\<close>

theorem stock_consistency:
  assumes "record_all empty_document calls = Some d"
    and "list_all in_or_out calls"
  shows "map_of d ''stock'' = Some (JDict (stock_list d)) \<and>
         get_or d ''history'' (JList []) = JList (history_list d) \<and>
         summarize (history_list d) = Inr (stock_list d) \<and>
         (\<forall>i ok l. case qty_at (stock_list d) i ok l of
                      Some v \<Rightarrow> v = JInt (net_quantity (history_list d) i ok l)
                    | None \<Rightarrow> net_quantity (history_list d) i ok l = 0)"
proof -
  have c: "consistent d"
    using consistent_empty_document assms by (rule consistent_record_all)
  then have cs: "current_schema d"
    and nq: "\<And>i ok l. quantity_in (stock_list d) i ok l = net_quantity (history_list d) i ok l"
    by (simp_all add: consistent_def)
  note s = stock_list_eq[OF cs]
  have "case qty_at (stock_list d) i ok l of
          Some v \<Rightarrow> v = JInt (net_quantity (history_list d) i ok l)
        | None \<Rightarrow> net_quantity (history_list d) i ok l = 0" for i ok l
  proof (cases "qty_at (stock_list d) i ok l")
    case None
    then show ?thesis using nq[of i ok l] by (simp add: quantity_in_def)
  next
    case (Some v)
    then have "map_of (locations_of (option_map_of (stock_list d) i) ok) l = Some v"
      by (simp add: qty_at_lookups)
    then obtain n where "v = JInt n"
      using typed_lookup_location[OF typed_locations_of[OF typed_option_map_of[OF s(2)]]] by blast
    then show ?thesis using Some nq[of i ok l] by (simp add: quantity_in_def)
  qed
  then show ?thesis
    using c s(1) history_list_eq(1)[OF cs] by (simp add: consistent_def)
qed

theorem stock_consistency_witness:
  "record_all empty_document
     [(into_seoul ''ArtistA'' 10 march_9, False, ''2024-03-09T09:00:00''),
      (out_of_seoul ''ArtistA'' 4 march_9, False, ''2024-03-09T09:05:00'')]
   = Some (snd (record_transaction
                  (snd (record_transaction empty_document (into_seoul ''ArtistA'' 10 march_9) False
                          ''2024-03-09T09:00:00''))
                  (out_of_seoul ''ArtistA'' 4 march_9) False ''2024-03-09T09:05:00'')) \<and>
   qty_at (stock_list (snd (record_transaction
                  (snd (record_transaction empty_document (into_seoul ''ArtistA'' 10 march_9) False
                          ''2024-03-09T09:00:00''))
                  (out_of_seoul ''ArtistA'' 4 march_9) False ''2024-03-09T09:05:00''))) ''Album X'' [] ''Seoul''
     = Some (JInt 6) \<and>
   net_quantity (history_list (snd (record_transaction
                  (snd (record_transaction empty_document (into_seoul ''ArtistA'' 10 march_9) False
                          ''2024-03-09T09:00:00''))
                  (out_of_seoul ''ArtistA'' 4 march_9) False ''2024-03-09T09:05:00''))) ''Album X'' [] ''Seoul''
     = 6 \<and>
   summarize (history_list (snd (record_transaction
                  (snd (record_transaction empty_document (into_seoul ''ArtistA'' 10 march_9) False
                          ''2024-03-09T09:00:00''))
                  (out_of_seoul ''ArtistA'' 4 march_9) False ''2024-03-09T09:05:00'')))
     = Inr (stock_list (snd (record_transaction
                  (snd (record_transaction empty_document (into_seoul ''ArtistA'' 10 march_9) False
                          ''2024-03-09T09:00:00''))
                  (out_of_seoul ''ArtistA'' 4 march_9) False ''2024-03-09T09:05:00'')))"
proof -
  let ?calls = "[(into_seoul ''ArtistA'' 10 march_9, False, ''2024-03-09T09:00:00''),
                 (out_of_seoul ''ArtistA'' 4 march_9, False, ''2024-03-09T09:05:00'')]"
  let ?d = "snd (record_transaction
                  (snd (record_transaction empty_document (into_seoul ''ArtistA'' 10 march_9) False
                          ''2024-03-09T09:00:00''))
                  (out_of_seoul ''ArtistA'' 4 march_9) False ''2024-03-09T09:05:00'')"
  have h1: "record_all empty_document ?calls = Some ?d" by code_simp
  have h2: "list_all in_or_out ?calls" by code_simp
  have q: "qty_at (stock_list ?d) ''Album X'' [] ''Seoul'' = Some (JInt 6)" by code_simp
  from stock_consistency[OF h1 h2]
  have "case qty_at (stock_list ?d) ''Album X'' [] ''Seoul'' of
          Some v \<Rightarrow> v = JInt (net_quantity (history_list ?d) ''Album X'' [] ''Seoul'')
        | None \<Rightarrow> net_quantity (history_list ?d) ''Album X'' [] ''Seoul'' = 0"
    and s: "summarize (history_list ?d) = Inr (stock_list ?d)"
    by blast+
  then have "net_quantity (history_list ?d) ''Album X'' [] ''Seoul'' = 6"
    by (simp add: q)
  then show ?thesis using h1 q s by simp
qed

section \<open>The reconciliation pull on two documents\<close>

lemma sync_keys_same_snapshot:
  "sync_keys snapshot snapshot now actor clock keys data changes = (Completed, data, changes)"
  by (induction keys) (simp_all add: Let_def)

lemma signed_quantity_correction:
  "diff \<noteq> 0 \<Longrightarrow> signed_quantity (correction key diff artist category_value now actor) = diff"
  by (cases key) (auto simp: correction_def signed_quantity_def)

lemma correction_moves_stock_by_diff:
  assumes "current_schema d" and "diff \<noteq> 0"
    and "\<not> artist_conflict d (correction (category, item, opt, location) diff artist category_value now actor)"
  shows "fst (record_transaction d (correction (category, item, opt, location) diff artist category_value now actor)
                True clock) = None \<and>
         stock_at (snd (record_transaction d
                          (correction (category, item, opt, location) diff artist category_value now actor)
                          True clock)) item (option_key opt) location
           = Some (JInt (stock_quantity d item (option_key opt) location + diff))"
proof -
  let ?t = "correction (category, item, opt, location) diff artist category_value now actor"
  have f: "tx_item ?t = item" "tx_option ?t = opt" "tx_location ?t = location"
    by (simp_all add: correction_def)
  have ns: "\<not> (short_of_stock d ?t \<and> \<not> True)" by simp
  show ?thesis
    using record_transaction_success[OF assms(1) assms(3) ns, of clock]
    by (simp add: f stock_at_def qty_at_put_quantity signed_quantity_correction[OF assms(2)]
          stock_quantity_stock_list[OF assms(1)])
qed

text \<open>
  Scenario E: six units locally, nine on the sheet. The pull completes with one
  transaction, an inbound one of three units, and nine units in stock; a pull of the
  local document against itself records nothing.
\<close>

lemma pull_scenario_e:
  "(case sync_google_drive march_document album_sheet april_2 ''staff'' ''2024-04-02T14:30:00'' of
      (ended, data, changes) \<Rightarrow>
        ended = Completed \<and> changes = 1 \<and>
        stock_at data ''Album X'' [] ''Seoul'' = Some (JInt 9) \<and>
        map (\<lambda>e. case e of JDict m \<Rightarrow> (map_of m ''type'', map_of m ''quantity'') | _ \<Rightarrow> (None, None))
          (history_list data) = [(Some (JStr ''in''), Some (JInt 3))])"
  by code_simp

lemma pull_against_itself:
  "sync_google_drive march_document march_document april_2 ''staff'' ''2024-04-02T14:30:00''
     = (Completed, march_document, 0)"
  by code_simp

text \<open>
  Claim C3 (the pull of the reconciliation), at a concrete input. The local document holds
  six units of the album; the sheet holds nine, and five posters in a row without an
  artist. The pull records the one inbound correction of three units for the album; at
  the key of the poster, whose quantities differ (0 locally, 5 on the sheet), it raises
  \<^verbatim>\<open>TypeError\<close> and records nothing: the local document has no poster afterwards.
\<close>

theorem pull_raises_without_artist:
  "(case sync_google_drive march_document sheet_document april_2 ''staff'' ''2024-04-02T14:30:00'' of
      (ended, data, changes) \<Rightarrow>
        ended = Raised TypeError \<and> changes = 1 \<and>
        stock_at data ''Album X'' [] ''Seoul'' = Some (JInt 9) \<and>
        stock_at data ''Poster'' [] ''Seoul'' = None) \<and>
   stock_quantity sheet_document ''Poster'' [] ''Seoul'' = 5 \<and>
   stock_quantity march_document ''Poster'' [] ''Seoul'' = 0"
  by code_simp

end
